theory Spec2Isabelle
  imports Complex_Main "HOL-Library.Word" "HOL-Library.Signed_Division"
begin

section \<open>Data model\<close>

text \<open>
  The repository holds two near-duplicate batch jobs, \<^verbatim>\<open>credit_card_reject.go\<close> and
  \<^verbatim>\<open>aadhaar_notifications.go.go\<close>. Functions that are textually the same in both files
  are modelled once; functions that differ take the variant as their first argument and
  have one branch per file.
\<close>

datatype variant = CreditCard | Aadhaar

text \<open>
  Go's \<^verbatim>\<open>int\<close> (64 bit, two's complement, wrapping) and \<^verbatim>\<open>uint32\<close> are words.
  A \<^verbatim>\<open>time.Time\<close> is the number of nanoseconds since the epoch, a
  \<^verbatim>\<open>time.Duration\<close> is a signed 64-bit count of nanoseconds.
\<close>

type_synonym go_int = "64 word"
type_synonym uint32 = "32 word"
type_synonym time = int
type_synonym duration = "64 word"

text \<open>
  \<^verbatim>\<open>UserFlowResult\<close>: the credit-card file has the field \<^verbatim>\<open>Reasons\<close>, the Aadhaar
  file has \<^verbatim>\<open>Status\<close> in its place. The record carries both; each variant reads only
  its own. Where two structs of the source have a field of the same name, the later
  record's field carries a letter in front: \<open>UMobileNumber\<close> of \<^verbatim>\<open>UserDetails\<close>,
  \<open>SEventName\<close> and \<open>SAttempt\<close> of \<^verbatim>\<open>NotificationStatusDetails\<close>, and the \<open>C\<close>
  fields of \<^verbatim>\<open>NotificationConfigDetails\<close>.
\<close>

record UserFlowResult =
  MobileNumber :: string
  Reasons :: string
  Status :: string
  CreatedAt :: time

record UserDetails =
  ID :: uint32
  FullName :: string
  UMobileNumber :: string
  PlainMobileNumber :: string

record CustomHeaderDetails =
  XPlatform :: string
  XDeviceToken :: string

record NotificationStatusDetails =
  SEventName :: string
  SAttempt :: go_int

record NotificationConfigDetails =
  CDelay :: go_int
  CChannel :: string
  CEventName :: string
  CEventID :: go_int

text \<open>
  \<^verbatim>\<open>Notification\<close>. \<^verbatim>\<open>Delay\<close> is a \<^verbatim>\<open>float64\<close> in the source; it is modelled by the
  real number that the float approximates. \<^verbatim>\<open>Metadata\<close> is a map from strings to
  strings, modelled as an association list (the nil map of the zero value is \<open>[]\<close>).
\<close>

record Notification =
  Event :: string
  Delay :: real
  UserID :: uint32
  Mobile :: string
  PlainMobile :: string
  CurrentStatus :: string
  Attempt :: go_int
  Source :: string
  Channel :: string
  Metadata :: "(string \<times> string) list"
  DeviceToken :: string
  EventID :: go_int

record UserFlowWithEvent =
  UserFlow :: UserFlowResult
  EventType :: string

text \<open>The zero values \<^verbatim>\<open>T{}\<close> of the structs.\<close>

definition zero_NotificationStatusDetails :: NotificationStatusDetails where
  "zero_NotificationStatusDetails = \<lparr>SEventName = [], SAttempt = 0\<rparr>"

definition zero_NotificationConfigDetails :: NotificationConfigDetails where
  "zero_NotificationConfigDetails =
     \<lparr>CDelay = 0, CChannel = [], CEventName = [], CEventID = 0\<rparr>"

definition zero_Notification :: Notification where
  "zero_Notification =
     \<lparr>Event = [], Delay = 0, UserID = 0, Mobile = [], PlainMobile = [],
      CurrentStatus = [], Attempt = 0, Source = [], Channel = [], Metadata = [],
      DeviceToken = [], EventID = 0\<rparr>"

subsection \<open>The relational store\<close>

text \<open>
  The tables the queries read, as lists of rows in storage order, with the columns the
  queries mention. Columns are taken to be non-null.
\<close>

record card_statuses_row =
  cs_mobile_number :: string
  cs_status :: string
  cs_created_at :: time

record flow_statuses_row =
  fs_mobile_number :: string
  fs_status :: string
  fs_created_at :: time

record custom_headers_row =
  ch_user_id :: uint32
  ch_x_platform :: string
  ch_x_device_token :: string
  ch_updated_at :: time

record notification_status_row =
  ns_user_id :: uint32
  ns_event_name :: string
  ns_attempt :: go_int
  ns_updated_at :: time

record notification_config_row =
  nc_event_name :: string
  nc_attempt :: go_int
  nc_delay :: go_int
  nc_channel :: string
  nc_event_id :: go_int

text \<open>
  A query either fails with the driver's message or returns rows. Which queries fail is
  part of the store: \<open>candidates_err\<close> by page offset, \<open>status_err\<close> and
  \<open>config_err\<close> by the query's arguments. \<open>window_start\<close> is the value of
  \<^verbatim>\<open>NOW() - INTERVAL '<n> day'\<close> that the store computes for the candidate query.
\<close>

record database =
  card_statuses :: "card_statuses_row list"
  flow_statuses :: "flow_statuses_row list"
  users :: "UserDetails list"
  custom_headers :: "custom_headers_row list"
  notification_status :: "notification_status_row list"
  notification_config :: "notification_config_row list"
  window_start :: time
  candidates_err :: "nat \<Rightarrow> string option"
  users_err :: "string option"
  custom_headers_err :: "string option"
  status_err :: "uint32 \<Rightarrow> string \<Rightarrow> string option"
  config_err :: "string \<Rightarrow> go_int \<Rightarrow> string option"

text \<open>The Go \<^verbatim>\<open>error\<close> values the program creates or passes on.\<close>

datatype error =
    FetchUsersError nat string
  | UserDetailsError string
  | CustomHeadersError string
  | NotificationStatusError uint32 string string
  | DriverError string

section \<open>Attempt Ledger Lookup\<close>

text \<open>
  \<^verbatim>\<open>fetchNotificationStatus\<close>: the row of \<^verbatim>\<open>notification_status\<close> for the user and
  event with the latest \<^verbatim>\<open>updated_at\<close> (\<^verbatim>\<open>ORDER BY updated_at DESC LIMIT 1\<close>; among
  equal timestamps the first in storage order), scanned into a zero-valued struct, which
  stays zero when there is no row.
\<close>

definition notification_status_query ::
  "database \<Rightarrow> uint32 \<Rightarrow> string \<Rightarrow> notification_status_row list" where
  "notification_status_query db userID eventName =
     take 1 (sort_key (\<lambda>r. - ns_updated_at r)
       (filter (\<lambda>r. ns_user_id r = userID \<and> ns_event_name r = eventName)
          (notification_status db)))"

definition fetchNotificationStatus ::
  "database \<Rightarrow> uint32 \<Rightarrow> string \<Rightarrow> error + NotificationStatusDetails" where
  "fetchNotificationStatus db userID eventName =
     (case status_err db userID eventName of
        Some e \<Rightarrow> Inl (NotificationStatusError userID eventName e)
      | None \<Rightarrow>
          (case notification_status_query db userID eventName of
             [] \<Rightarrow> Inr zero_NotificationStatusDetails
           | r # _ \<Rightarrow> Inr \<lparr>SEventName = ns_event_name r, SAttempt = ns_attempt r\<rparr>))"

text \<open>
  The attempt number \<^verbatim>\<open>main\<close> resolves from the ledger's answer:
  \<^verbatim>\<open>attempt := 1; if notificationStatus.EventName != "" { attempt = notificationStatus.Attempt + 1 }\<close>.
\<close>

definition resolveAttempt :: "NotificationStatusDetails \<Rightarrow> go_int" where
  "resolveAttempt notificationStatus =
     (if SEventName notificationStatus \<noteq> [] then SAttempt notificationStatus + 1 else 1)"

section \<open>Policy Resolver\<close>

text \<open>
  \<^verbatim>\<open>fetchNotificationConfig\<close>: the first row of \<^verbatim>\<open>notification_config\<close> with exactly
  this event name and attempt (\<^verbatim>\<open>LIMIT 1\<close>, no ordering), scanned into a zero-valued
  struct. The credit-card file returns the driver's error to the caller; the Aadhaar
  file tests \<^verbatim>\<open>err != nil || notificationConfig.EventName == ""\<close> and returns the zero
  struct with a nil error in both cases.
\<close>

definition notification_config_query ::
  "database \<Rightarrow> string \<Rightarrow> go_int \<Rightarrow> notification_config_row list" where
  "notification_config_query db eventName attempt =
     take 1 (filter (\<lambda>r. nc_event_name r = eventName \<and> nc_attempt r = attempt)
       (notification_config db))"

definition scan_notification_config ::
  "notification_config_row list \<Rightarrow> NotificationConfigDetails" where
  "scan_notification_config rows =
     (case rows of
        [] \<Rightarrow> zero_NotificationConfigDetails
      | r # _ \<Rightarrow> \<lparr>CDelay = nc_delay r, CChannel = nc_channel r,
                   CEventName = nc_event_name r, CEventID = nc_event_id r\<rparr>)"

fun fetchNotificationConfig ::
  "variant \<Rightarrow> database \<Rightarrow> string \<Rightarrow> go_int \<Rightarrow> error + NotificationConfigDetails" where
  "fetchNotificationConfig CreditCard db eventName attempt =
     (case config_err db eventName attempt of
        Some e \<Rightarrow> Inl (DriverError e)
      | None \<Rightarrow> Inr (scan_notification_config (notification_config_query db eventName attempt)))"
| "fetchNotificationConfig Aadhaar db eventName attempt =
     (let notificationConfig =
            (case config_err db eventName attempt of
               Some e \<Rightarrow> zero_NotificationConfigDetails
             | None \<Rightarrow> scan_notification_config (notification_config_query db eventName attempt))
      in if config_err db eventName attempt \<noteq> None \<or> CEventName notificationConfig = []
         then Inr zero_NotificationConfigDetails
         else Inr notificationConfig)"

section \<open>Scheduler/Assembler\<close>

text \<open>
  The operations of Go's \<^verbatim>\<open>time\<close> package that \<^verbatim>\<open>buildNotification\<close> uses.
  \<^verbatim>\<open>time.Duration(n) * time.Second\<close> is a 64-bit multiplication and wraps;
  \<^verbatim>\<open>Time.Add\<close> adds the signed duration; \<^verbatim>\<open>Time.Sub\<close> saturates at the least and
  greatest duration; \<^verbatim>\<open>Duration.Seconds\<close> is
  \<^verbatim>\<open>float64(d / Second) + float64(d % Second) / 1e9\<close> with Go's truncating division.
\<close>

definition Second :: duration where
  "Second = 1000000000"

definition minDuration :: duration where
  "minDuration = word_of_int (- (2 ^ 63))"

definition maxDuration :: duration where
  "maxDuration = word_of_int (2 ^ 63 - 1)"

definition time_Add :: "time \<Rightarrow> duration \<Rightarrow> time" where
  "time_Add t d = t + sint d"

definition time_Sub :: "time \<Rightarrow> time \<Rightarrow> duration" where
  "time_Sub t u =
     (if - (2 ^ 63) \<le> t - u \<and> t - u \<le> 2 ^ 63 - 1 then word_of_int (t - u)
      else if t < u then minDuration
      else maxDuration)"

definition Seconds :: "duration \<Rightarrow> real" where
  "Seconds d =
     real_of_int (sint d sdiv 1000000000) + real_of_int (sint d smod 1000000000) / 1000000000"

text \<open>
  \<^verbatim>\<open>buildNotification\<close>. \<open>envSOURCE\<close> is the value of \<^verbatim>\<open>os.Getenv("SOURCE")\<close>
  (empty when unset) and \<open>currentTime\<close> the reading of \<^verbatim>\<open>time.Now()\<close>. The two files
  differ in the default source label, in \<^verbatim>\<open>CurrentStatus\<close> and in \<^verbatim>\<open>Metadata\<close>.
\<close>

fun defaultSource :: "variant \<Rightarrow> string" where
  "defaultSource CreditCard = ''legacy credit card rejected default''"
| "defaultSource Aadhaar = ''legacy card default''"

definition newDelay :: "UserFlowResult \<Rightarrow> NotificationConfigDetails \<Rightarrow> time \<Rightarrow> real" where
  "newDelay userFlow notificationConfig currentTime =
     (let scheduledTime = time_Add (CreatedAt userFlow) (CDelay notificationConfig * Second)
      in Seconds (time_Sub scheduledTime currentTime))"

definition buildNotification ::
  "variant \<Rightarrow> string \<Rightarrow> time \<Rightarrow> UserFlowResult \<Rightarrow> UserDetails \<Rightarrow> CustomHeaderDetails \<Rightarrow>
   NotificationConfigDetails \<Rightarrow> go_int \<Rightarrow> string \<Rightarrow> Notification" where
  "buildNotification v envSOURCE currentTime userFlow userDetail customHeader
       notificationConfig attempt eventName =
     (let source = (if envSOURCE = [] then defaultSource v else envSOURCE);
          nd = newDelay userFlow notificationConfig currentTime
      in if nd < 0 then zero_Notification
         else \<lparr>Event = CEventName notificationConfig,
               Delay = nd,
               UserID = ID userDetail,
               Mobile = MobileNumber userFlow,
               PlainMobile = PlainMobileNumber userDetail,
               CurrentStatus =
                 (case v of CreditCard \<Rightarrow> ''DECLINED'' | Aadhaar \<Rightarrow> Status userFlow),
               Attempt = attempt,
               Source = source,
               Channel = CChannel notificationConfig,
               Metadata =
                 (case v of
                    CreditCard \<Rightarrow> [(''Name'', FullName userDetail), (''Reasons'', Reasons userFlow)]
                  | Aadhaar \<Rightarrow> [(''Name'', FullName userDetail)]),
               DeviceToken = XDeviceToken customHeader,
               EventID = CEventID notificationConfig\<rparr>)"

section \<open>Reporter\<close>

text \<open>
  \<^verbatim>\<open>printNotifications\<close> walks the list, skips every entry whose \<^verbatim>\<open>Event\<close> is empty and
  prints one block per other entry. The model returns the entries printed, in order; the
  count it logs is their number.
\<close>

definition printNotifications :: "Notification list \<Rightarrow> Notification list" where
  "printNotifications notifications = filter (\<lambda>notification. Event notification \<noteq> []) notifications"

text \<open>
  The end-of-run report of \<^verbatim>\<open>main\<close>: \<^verbatim>\<open>for i, err := range errs\<close> logs
  \<^verbatim>\<open>"Error %d: %v", i+1, err\<close>; nothing is logged when \<^verbatim>\<open>errs\<close> is empty.
\<close>

definition reportErrors :: "error list \<Rightarrow> (nat \<times> error) list" where
  "reportErrors errs = map (\<lambda>i. (i + 1, errs ! i)) [0..<length errs]"

section \<open>Subject Directory Lookup and Device Metadata Lookup\<close>

text \<open>
  \<^verbatim>\<open>fetchUserDetails\<close>: the rows of \<^verbatim>\<open>users\<close> whose mobile number is in the list, put
  into a map by mobile number in the order returned (a later row replaces an earlier one).
\<close>

definition fetchUserDetails ::
  "database \<Rightarrow> string list \<Rightarrow> error + (string \<rightharpoonup> UserDetails)" where
  "fetchUserDetails db mobileNumbers =
     (case users_err db of
        Some e \<Rightarrow> Inl (UserDetailsError e)
      | None \<Rightarrow>
          Inr (foldl (\<lambda>userDetailsMap detail. userDetailsMap(UMobileNumber detail \<mapsto> detail))
                 Map.empty
                 (filter (\<lambda>u. UMobileNumber u \<in> set mobileNumbers) (users db))))"

text \<open>
  \<^verbatim>\<open>fetchCustomHeader\<close>: the rows of \<^verbatim>\<open>custom_headers\<close> for the given user IDs,
  \<^verbatim>\<open>ORDER BY user_id, updated_at DESC\<close> (rows equal in both keys stay in storage order),
  then the loop that stores a row only when its user ID is not yet in the map.
\<close>

definition custom_headers_query :: "database \<Rightarrow> uint32 list \<Rightarrow> custom_headers_row list" where
  "custom_headers_query db userIDs =
     sort_key ch_user_id
       (sort_key (\<lambda>r. - ch_updated_at r)
          (filter (\<lambda>r. ch_user_id r \<in> set userIDs) (custom_headers db)))"

definition insertCustomHeader ::
  "(uint32 \<rightharpoonup> CustomHeaderDetails) \<Rightarrow> custom_headers_row \<Rightarrow> (uint32 \<rightharpoonup> CustomHeaderDetails)" where
  "insertCustomHeader customHeadersMap header =
     (if customHeadersMap (ch_user_id header) = None
      then customHeadersMap(ch_user_id header \<mapsto>
             \<lparr>XPlatform = ch_x_platform header, XDeviceToken = ch_x_device_token header\<rparr>)
      else customHeadersMap)"

definition buildCustomHeadersMap ::
  "custom_headers_row list \<Rightarrow> (uint32 \<rightharpoonup> CustomHeaderDetails)" where
  "buildCustomHeadersMap customHeaders = foldl insertCustomHeader Map.empty customHeaders"

definition fetchCustomHeader ::
  "database \<Rightarrow> uint32 list \<Rightarrow> error + (uint32 \<rightharpoonup> CustomHeaderDetails)" where
  "fetchCustomHeader db userIDs =
     (case custom_headers_err db of
        Some e \<Rightarrow> Inl (CustomHeadersError e)
      | None \<Rightarrow> Inr (buildCustomHeadersMap (custom_headers_query db userIDs)))"

section \<open>Candidate Source\<close>

text \<open>
  The rows a candidate query returns: mobile number, status, creation time and event
  type (the credit-card query selects only the mobile number and the creation time, so
  the other two fields keep their zero value).
\<close>

record candidate_row =
  r_MobileNumber :: string
  r_Status :: string
  r_CreatedAt :: time
  r_EventType :: string

subsection \<open>Credit card: declined cards\<close>

text \<open>
  \<^verbatim>\<open>SELECT DISTINCT cs.mobile_number, cs.created_at FROM card_statuses cs LEFT JOIN users u
  ON cs.mobile_number = u.mobile_number WHERE cs.status = 'DECLINED' AND cs.created_at >=
  NOW() - INTERVAL '<n> day'\<close>
\<close>

definition left_join_users ::
  "card_statuses_row list \<Rightarrow> UserDetails list \<Rightarrow> (card_statuses_row \<times> UserDetails option) list" where
  "left_join_users css us =
     concat (map (\<lambda>cs.
        (case filter (\<lambda>u. cs_mobile_number cs = UMobileNumber u) us of
           [] \<Rightarrow> [(cs, None)]
         | ms \<Rightarrow> map (\<lambda>u. (cs, Some u)) ms)) css)"

definition declined_query :: "database \<Rightarrow> candidate_row list" where
  "declined_query db =
     remdups
       (map (\<lambda>(cs, u). \<lparr>r_MobileNumber = cs_mobile_number cs, r_Status = [],
                         r_CreatedAt = cs_created_at cs, r_EventType = []\<rparr>)
          (filter (\<lambda>(cs, u). cs_status cs = ''DECLINED'' \<and> window_start db \<le> cs_created_at cs)
             (left_join_users (card_statuses db) (users db))))"

text \<open>
  The loop body of \<^verbatim>\<open>fetchCreditCardRejectedUsers\<close> over one page: a row with an empty
  mobile number is skipped, every other row becomes a candidate of type
  \<^verbatim>\<open>CREDIT_CARD_REJECTED\<close>. \<^verbatim>\<open>Reasons\<close> is copied from a column the query does not
  select.
\<close>

definition declined_candidates :: "candidate_row list \<Rightarrow> UserFlowWithEvent list" where
  "declined_candidates rows =
     map (\<lambda>user. \<lparr>UserFlow = \<lparr>MobileNumber = r_MobileNumber user, Reasons = [], Status = [],
                                CreatedAt = r_CreatedAt user\<rparr>,
                   EventType = ''CREDIT_CARD_REJECTED''\<rparr>)
       (filter (\<lambda>user. r_MobileNumber user \<noteq> []) rows)"

subsection \<open>Aadhaar: latest flow status per mobile number\<close>

definition rejectStatuses :: "string list" where
  "rejectStatuses =
     [''AADHAAR_EXPIRED_VID'', ''AADHAAR_FORBIDDEN_ERR'', ''AADHAAR_INVALID'',
      ''AADHAAR_INVALID_VID'', ''AADHAAR_MOBILE_ERR'', ''AADHAAR_SUSPENDED'']"

definition failureStatuses :: "string list" where
  "failureStatuses =
     [''AADHAAR_EXCEEDED_OTP'', ''AADHAAR_DEMOAUTH_FAILED'', ''AADHAAR_OTP_FAILED'',
      ''AADHAAR_SERVER_ERR'', ''AADHAR_VERIFY_4XX'', ''AADHAR_VERIFY_500'',
      ''AADHAR_VERIFY_INVALID_OTP'', ''AADHAAR_SENDOTP_TIMEOUT'', ''AADHAR_VERIFY_TIMEOUT'',
      ''AADHAR_VERIFY_MAXOTP_ATTEMPS'', ''AADHAAR_RATELIMIT'']"

text \<open>The \<^verbatim>\<open>CASE\<close> expression of the inner query; its \<^verbatim>\<open>NOT EXISTS\<close> reads the whole table.\<close>

definition event_type :: "flow_statuses_row list \<Rightarrow> flow_statuses_row \<Rightarrow> string" where
  "event_type table row =
     (if fs_status row = ''PAN_FORM'' \<and>
         \<not> list_ex (\<lambda>fs2. fs_mobile_number fs2 = fs_mobile_number row \<and> fs_status fs2 = ''AADHAR'') table
      then ''AADHAR_FORM_DROPOFF''
      else if fs_status row \<in> set rejectStatuses then ''AADHAAR_REJECT''
      else if fs_status row \<in> set failureStatuses then ''AADHAAR_FAILURE''
      else ''UNKNOWN'')"

text \<open>
  \<^verbatim>\<open>ROW_NUMBER() OVER (PARTITION BY mobile_number ORDER BY created_at DESC)\<close>: the rows are
  put in descending order of creation time (equal times stay in storage order) and each
  row is numbered within the rows of its mobile number. \<open>prev\<close> holds the rows already
  numbered.
\<close>

fun row_number :: "flow_statuses_row list \<Rightarrow> flow_statuses_row list \<Rightarrow> (flow_statuses_row \<times> nat) list" where
  "row_number prev [] = []"
| "row_number prev (r # rs) =
     (r, Suc (length (filter (\<lambda>p. fs_mobile_number p = fs_mobile_number r) prev)))
       # row_number (prev @ [r]) rs"

definition latest_status_query :: "database \<Rightarrow> candidate_row list" where
  "latest_status_query db =
     remdups
       (map (\<lambda>(row, rn). \<lparr>r_MobileNumber = fs_mobile_number row, r_Status = fs_status row,
                            r_CreatedAt = fs_created_at row,
                            r_EventType = event_type (flow_statuses db) row\<rparr>)
          (filter (\<lambda>(row, rn). rn = 1 \<and>
                     event_type (flow_statuses db) row
                       \<in> set [''AADHAR_FORM_DROPOFF'', ''AADHAAR_REJECT'', ''AADHAAR_FAILURE''])
             (row_number []
                (sort_key (\<lambda>row. - fs_created_at row)
                   (filter (\<lambda>row. window_start db \<le> fs_created_at row) (flow_statuses db))))))"

definition status_candidates :: "candidate_row list \<Rightarrow> UserFlowWithEvent list" where
  "status_candidates rows =
     map (\<lambda>user. \<lparr>UserFlow = \<lparr>MobileNumber = r_MobileNumber user, Reasons = [],
                                Status = r_Status user, CreatedAt = r_CreatedAt user\<rparr>,
                   EventType = r_EventType user\<rparr>) rows"

subsection \<open>Pagination\<close>

text \<open>
  Both files fetch the candidates page by page: \<^verbatim>\<open>LIMIT batchSize OFFSET offset\<close>, append
  the page's candidates, stop when the page has fewer rows than \<^verbatim>\<open>batchSize\<close>, else add
  \<^verbatim>\<open>batchSize\<close> to the offset. A failing page aborts with an error. \<open>page\<close> is the
  slice \<^verbatim>\<open>users\<close> of the source. The store and the
  order of the query's result are taken to be the same for every page. With
  \<^verbatim>\<open>batchSize = 0\<close> the loop never ends, so the loop is a partial function.
\<close>

fun candidate_query :: "variant \<Rightarrow> database \<Rightarrow> candidate_row list" where
  "candidate_query CreditCard db = declined_query db"
| "candidate_query Aadhaar db = latest_status_query db"

fun page_candidates :: "variant \<Rightarrow> candidate_row list \<Rightarrow> UserFlowWithEvent list" where
  "page_candidates CreditCard rows = declined_candidates rows"
| "page_candidates Aadhaar rows = status_candidates rows"

definition fetch_page :: "variant \<Rightarrow> database \<Rightarrow> nat \<Rightarrow> nat \<Rightarrow> error + candidate_row list" where
  "fetch_page v db batchSize offset =
     (case candidates_err db offset of
        Some e \<Rightarrow> Inl (FetchUsersError offset e)
      | None \<Rightarrow> Inr (take batchSize (drop offset (candidate_query v db))))"

partial_function (option) fetchLoop ::
  "variant \<Rightarrow> database \<Rightarrow> nat \<Rightarrow> nat \<Rightarrow> UserFlowWithEvent list \<Rightarrow>
   (error + UserFlowWithEvent list) option" where
  "fetchLoop v db batchSize offset allUsers =
     (case fetch_page v db batchSize offset of
        Inl e \<Rightarrow> Some (Inl e)
      | Inr page \<Rightarrow>
          (if length page < batchSize
           then Some (Inr (allUsers @ page_candidates v page))
           else fetchLoop v db batchSize (offset + batchSize) (allUsers @ page_candidates v page)))"

declare fetchLoop.simps [code]

text \<open>
  \<^verbatim>\<open>fetchCreditCardRejectedUsers\<close> and \<^verbatim>\<open>fetchUsers\<close>: the loop from offset 0 with no
  candidates yet.
\<close>

definition fetchUsers :: "variant \<Rightarrow> database \<Rightarrow> nat \<Rightarrow> (error + UserFlowWithEvent list) option" where
  "fetchUsers v db batchSize = fetchLoop v db batchSize 0 []"

section \<open>The run: \<^verbatim>\<open>main\<close>\<close>

text \<open>
  The distinct mobile numbers of the candidates, in order of first occurrence
  (\<^verbatim>\<open>processedMobileNumbers\<close> is the set of the list built).
\<close>

definition collectMobileNumbers :: "UserFlowWithEvent list \<Rightarrow> string list" where
  "collectMobileNumbers allUsers =
     foldl (\<lambda>mobileNumbers user.
              if MobileNumber (UserFlow user) \<in> set mobileNumbers then mobileNumbers
              else mobileNumbers @ [MobileNumber (UserFlow user)])
       [] allUsers"

text \<open>
  The nonzero IDs of the profiles in \<^verbatim>\<open>userDetailsMap\<close>. Go ranges over the map in an
  unspecified order; every key of the map is one of the mobile numbers queried, so the
  model ranges over those. Only membership in the list matters to the query it feeds.
\<close>

definition collectUserIDs :: "(string \<rightharpoonup> UserDetails) \<Rightarrow> string list \<Rightarrow> uint32 list" where
  "collectUserIDs userDetailsMap mobileNumbers =
     map ID (filter (\<lambda>detail. ID detail \<noteq> 0) (List.map_filter userDetailsMap mobileNumbers))"

text \<open>The header \<^verbatim>\<open>main\<close> substitutes when the map has none for the user.\<close>

fun placeholderHeader :: "variant \<Rightarrow> CustomHeaderDetails" where
  "placeholderHeader CreditCard = \<lparr>XPlatform = ''Unknown'', XDeviceToken = ''Not Available''\<rparr>"
| "placeholderHeader Aadhaar = \<lparr>XPlatform = ''Unknown'', XDeviceToken = []\<rparr>"

text \<open>
  The state of the per-candidate loop: the notifications and the errors collected so
  far, and how often \<^verbatim>\<open>time.Now()\<close> has been read (\<open>clock n\<close> is its \<open>n\<close>-th reading).
\<close>

record loop_state =
  notifications :: "Notification list"
  errs :: "error list"
  clock_reads :: nat

definition processUser ::
  "variant \<Rightarrow> database \<Rightarrow> string \<Rightarrow> (nat \<Rightarrow> time) \<Rightarrow> (string \<rightharpoonup> UserDetails) \<Rightarrow>
   (uint32 \<rightharpoonup> CustomHeaderDetails) \<Rightarrow> loop_state \<Rightarrow> UserFlowWithEvent \<Rightarrow> loop_state" where
  "processUser v db envSOURCE clock userDetailsMap customHeadersMap st userWithEvent =
     (let userFlow = UserFlow userWithEvent;
          eventName = EventType userWithEvent
      in case userDetailsMap (MobileNumber userFlow) of
           None \<Rightarrow> st
         | Some userDetail \<Rightarrow>
             if ID userDetail = 0 then st
             else
               (let customHeader =
                      (case customHeadersMap (ID userDetail) of
                         None \<Rightarrow> placeholderHeader v
                       | Some h \<Rightarrow> h)
                in case fetchNotificationStatus db (ID userDetail) eventName of
                     Inl err \<Rightarrow> st\<lparr>errs := errs st @ [err]\<rparr>
                   | Inr notificationStatus \<Rightarrow>
                       (let attempt = resolveAttempt notificationStatus
                        in case fetchNotificationConfig v db eventName attempt of
                             Inl err \<Rightarrow> st\<lparr>errs := errs st @ [err]\<rparr>
                           | Inr notificationConfig \<Rightarrow>
                               if CEventName notificationConfig = [] then st
                               else st\<lparr>notifications := notifications st @
                                          [buildNotification v envSOURCE (clock (clock_reads st))
                                             userFlow userDetail customHeader notificationConfig
                                             attempt eventName],
                                        clock_reads := Suc (clock_reads st)\<rparr>)))"

definition processUsers ::
  "variant \<Rightarrow> database \<Rightarrow> string \<Rightarrow> (nat \<Rightarrow> time) \<Rightarrow> (string \<rightharpoonup> UserDetails) \<Rightarrow>
   (uint32 \<rightharpoonup> CustomHeaderDetails) \<Rightarrow> loop_state \<Rightarrow> UserFlowWithEvent list \<Rightarrow> loop_state" where
  "processUsers v db envSOURCE clock userDetailsMap customHeadersMap st allUsers =
     foldl (processUser v db envSOURCE clock userDetailsMap customHeadersMap) st allUsers"

text \<open>
  What a run shows: the exit status, the list \<^verbatim>\<open>main\<close> passes to
  \<^verbatim>\<open>printNotifications\<close>, the blocks printed, and the numbered error report.
\<close>

record run_result =
  exit_code :: nat
  reporter_input :: "Notification list"
  printed :: "Notification list"
  error_report :: "(nat \<times> error) list"

definition fatal :: run_result where
  "fatal = \<lparr>exit_code = 1, reporter_input = [], printed = [], error_report = []\<rparr>"

definition initial_state :: loop_state where
  "initial_state = \<lparr>notifications = [], errs = [], clock_reads = 0\<rparr>"

text \<open>
  \<^verbatim>\<open>main\<close> from the candidates on. Only the credit-card file returns early on an empty
  candidate list.
\<close>

definition main_from_candidates ::
  "variant \<Rightarrow> database \<Rightarrow> string \<Rightarrow> (nat \<Rightarrow> time) \<Rightarrow> UserFlowWithEvent list \<Rightarrow> run_result" where
  "main_from_candidates v db envSOURCE clock allUsers =
     (if v = CreditCard \<and> length allUsers = 0
      then \<lparr>exit_code = 0, reporter_input = [], printed = [], error_report = []\<rparr>
      else
        (let mobileNumbers = collectMobileNumbers allUsers
         in case fetchUserDetails db mobileNumbers of
              Inl err \<Rightarrow> fatal
            | Inr userDetailsMap \<Rightarrow>
                (let userIDs = collectUserIDs userDetailsMap mobileNumbers
                 in case fetchCustomHeader db userIDs of
                      Inl err \<Rightarrow> fatal
                    | Inr customHeadersMap \<Rightarrow>
                        (let st = processUsers v db envSOURCE clock userDetailsMap
                                    customHeadersMap initial_state allUsers
                         in \<lparr>exit_code = 0,
                             reporter_input = notifications st,
                             printed = printNotifications (notifications st),
                             error_report = reportErrors (errs st)\<rparr>))))"

text \<open>\<^verbatim>\<open>main\<close>, with the constant \<^verbatim>\<open>batchSize = 1000\<close>. \<open>None\<close>: the run does not end.\<close>

definition batchSize :: nat where
  "batchSize = 1000"

definition main :: "variant \<Rightarrow> database \<Rightarrow> string \<Rightarrow> (nat \<Rightarrow> time) \<Rightarrow> run_result option" where
  "main v db envSOURCE clock =
     (case fetchUsers v db batchSize of
        None \<Rightarrow> None
      | Some (Inl err) \<Rightarrow> Some fatal
      | Some (Inr allUsers) \<Rightarrow> Some (main_from_candidates v db envSOURCE clock allUsers))"

section \<open>Example stores\<close>

text \<open>Concrete stores and inputs on which the theorems below are instantiated.\<close>

definition example_user :: UserDetails where
  "example_user =
     \<lparr>ID = 7, FullName = ''Asha'', UMobileNumber = ''+919990001'', PlainMobileNumber = ''9990001''\<rparr>"

definition empty_db :: database where
  "empty_db =
     \<lparr>card_statuses = [], flow_statuses = [], users = [], custom_headers = [],
      notification_status = [], notification_config = [], window_start = 0,
      candidates_err = (\<lambda>offset. None), users_err = None, custom_headers_err = None,
      status_err = (\<lambda>userID eventName. None), config_err = (\<lambda>eventName attempt. None)\<rparr>"

text \<open>
  One declined card at second 1000, two ledger rows (attempts 1 and 2), a policy for
  attempt 3 with a delay of 3600 seconds, no device metadata.
\<close>

definition declined_db :: database where
  "declined_db =
     empty_db
       \<lparr>card_statuses :=
          [\<lparr>cs_mobile_number = ''+919990001'', cs_status = ''DECLINED'',
            cs_created_at = 1000000000000\<rparr>],
        users := [example_user],
        notification_status :=
          [\<lparr>ns_user_id = 7, ns_event_name = ''CREDIT_CARD_REJECTED'', ns_attempt = 1,
            ns_updated_at = 500000000000\<rparr>,
           \<lparr>ns_user_id = 7, ns_event_name = ''CREDIT_CARD_REJECTED'', ns_attempt = 2,
            ns_updated_at = 900000000000\<rparr>],
        notification_config :=
          [\<lparr>nc_event_name = ''CREDIT_CARD_REJECTED'', nc_attempt = 3, nc_delay = 3600,
            nc_channel = ''PUSH'', nc_event_id = 42\<rparr>]\<rparr>"

definition declined_candidate :: UserFlowWithEvent where
  "declined_candidate =
     \<lparr>UserFlow = \<lparr>MobileNumber = ''+919990001'', Reasons = [], Status = [],
                   CreatedAt = 1000000000000\<rparr>,
      EventType = ''CREDIT_CARD_REJECTED''\<rparr>"

text \<open>The candidate's flow row and the policy of \<open>declined_db\<close>, and its resolved maps.\<close>

definition declined_flow :: UserFlowResult where
  "declined_flow =
     \<lparr>MobileNumber = ''+919990001'', Reasons = [], Status = [], CreatedAt = 1000000000000\<rparr>"

definition declined_policy :: NotificationConfigDetails where
  "declined_policy =
     \<lparr>CDelay = 3600, CChannel = ''PUSH'', CEventName = ''CREDIT_CARD_REJECTED'', CEventID = 42\<rparr>"

definition declined_profiles :: "string \<rightharpoonup> UserDetails" where
  "declined_profiles = [''+919990001'' \<mapsto> example_user]"


text \<open>Three device rows of user 7; the second and third share the latest update time.\<close>

definition device_rows :: "custom_headers_row list" where
  "device_rows =
     [\<lparr>ch_user_id = 7, ch_x_platform = ''ios'', ch_x_device_token = ''tok-old'', ch_updated_at = 1\<rparr>,
      \<lparr>ch_user_id = 7, ch_x_platform = ''android'', ch_x_device_token = ''tok-new'', ch_updated_at = 5\<rparr>,
      \<lparr>ch_user_id = 7, ch_x_platform = ''web'', ch_x_device_token = ''tok-tie'', ch_updated_at = 5\<rparr>]"

definition device_db :: database where
  "device_db = declined_db\<lparr>custom_headers := device_rows\<rparr>"

text \<open>
  An Aadhaar store: one rejected verification at second 1000, a policy for the first
  attempt, and a policy table whose every query fails.
\<close>

definition rejected_db :: database where
  "rejected_db =
     empty_db
       \<lparr>flow_statuses :=
          [\<lparr>fs_mobile_number = ''+919990001'', fs_status = ''AADHAAR_INVALID'',
            fs_created_at = 1000000000000\<rparr>],
        users := [example_user],
        notification_config :=
          [\<lparr>nc_event_name = ''AADHAAR_REJECT'', nc_attempt = 1, nc_delay = 3600,
            nc_channel = ''PUSH'', nc_event_id = 43\<rparr>],
        config_err := (\<lambda>eventName attempt. Some ''connection reset'')\<rparr>"

definition rejected_candidate :: UserFlowWithEvent where
  "rejected_candidate =
     \<lparr>UserFlow = \<lparr>MobileNumber = ''+919990001'', Reasons = [], Status = ''AADHAAR_INVALID'',
                   CreatedAt = 1000000000000\<rparr>,
      EventType = ''AADHAAR_REJECT''\<rparr>"

text \<open>\<open>declined_db\<close> with a policy table whose every query fails.\<close>

definition declined_failing_db :: database where
  "declined_failing_db =
     declined_db\<lparr>config_err := (\<lambda>eventName attempt. Some ''connection reset'')\<rparr>"

text \<open>An empty store whose \<^verbatim>\<open>users\<close> query fails.\<close>

definition users_down_db :: database where
  "users_down_db = empty_db\<lparr>users_err := Some ''connection reset''\<rparr>"

definition success_no_output :: run_result where
  "success_no_output = \<lparr>exit_code = 0, reporter_input = [], printed = [], error_report = []\<rparr>"





text \<open>
  \<open>declined_db\<close> with an empty ledger and a policy for the first attempt.
\<close>

definition first_policy :: NotificationConfigDetails where
  "first_policy =
     \<lparr>CDelay = 3600, CChannel = ''SMS'', CEventName = ''CREDIT_CARD_REJECTED'', CEventID = 41\<rparr>"

definition first_attempt_db :: database where
  "first_attempt_db =
     declined_db
       \<lparr>notification_status := [],
        notification_config :=
          [\<lparr>nc_event_name = ''CREDIT_CARD_REJECTED'', nc_attempt = 1, nc_delay = 3600,
            nc_channel = ''SMS'', nc_event_id = 41\<rparr>]\<rparr>"

text \<open>A ledger whose only row has an empty event name and attempt 5.\<close>

definition unnamed_ledger_db :: database where
  "unnamed_ledger_db =
     empty_db
       \<lparr>notification_status :=
          [\<lparr>ns_user_id = 7, ns_event_name = [], ns_attempt = 5, ns_updated_at = 10\<rparr>]\<rparr>"

section \<open>Auxiliary facts\<close>

subsection \<open>Arithmetic of attempts and durations\<close>

lemma sint_succ:
  fixes N :: "64 word"
  assumes "sint N < 2 ^ 63 - 1"
  shows "sint (N + 1) = sint N + 1"
proof -
  have lo: "- (2 ^ 63) \<le> sint N" using sint_ge[of N] by simp
  have "sint (N + 1) = signed_take_bit 63 (sint N + 1)"
    by (simp add: sint_word_ariths)
  also have "\<dots> = sint N + 1"
    using lo assms by (intro signed_take_bit_int_eq_self) simp_all
  finally show ?thesis .
qed

lemma Seconds_exact: "Seconds d = real_of_int (sint d) / 1000000000"
proof -
  have "sint d sdiv 1000000000 * 1000000000 + sint d smod 1000000000 = sint d"
    by (rule sdiv_mult_smod_eq)
  then have "real_of_int (sint d sdiv 1000000000) * 1000000000 + real_of_int (sint d smod 1000000000)
      = real_of_int (sint d)"
    by (metis of_int_add of_int_mult of_int_numeral)
  then show ?thesis
    unfolding Seconds_def by (simp add: field_simps)
qed

lemma Seconds_neg_iff: "Seconds d < 0 \<longleftrightarrow> sint d < 0"
proof -
  have "\<And>x::real. x / 1000000000 < 0 \<longleftrightarrow> x < 0" by simp
  then have "Seconds d < 0 \<longleftrightarrow> real_of_int (sint d) < 0"
    by (simp only: Seconds_exact)
  then show ?thesis by (simp only: of_int_less_0_iff)
qed

subsection \<open>Pagination returns the whole query result\<close>

lemma page_candidates_append:
  "page_candidates v (xs @ ys) = page_candidates v xs @ page_candidates v ys"
  by (cases v) (simp_all add: declined_candidates_def status_candidates_def)

lemma fetchLoop_result:
  assumes "0 < n"
  shows "\<exists>r. fetchLoop v db n off acc = Some r \<and>
           (\<forall>allUsers. r = Inr allUsers \<longrightarrow>
              allUsers = acc @ page_candidates v (drop off (candidate_query v db)))"
proof (induction "length (candidate_query v db) - off" arbitrary: off acc rule: less_induct)
  case less
  show ?case
  proof (cases "candidates_err db off")
    case (Some e)
    then show ?thesis
      by (subst fetchLoop.simps) (simp add: fetch_page_def)
  next
    case None
    let ?full = "candidate_query v db"
    let ?page = "take n (drop off ?full)"
    show ?thesis
    proof (cases "length ?page < n")
      case True
      then have "?page = drop off ?full" by (simp add: min_def split: if_splits)
      with True None show ?thesis
        by (subst fetchLoop.simps) (simp add: fetch_page_def)
    next
      case False
      then have len: "off + n \<le> length ?full"
        using assms by (simp add: min_def split: if_splits)
      with assms have "length ?full - (off + n) < length ?full - off" by simp
      from less[OF this, of "acc @ page_candidates v ?page"]
      obtain r where r: "fetchLoop v db n (off + n) (acc @ page_candidates v ?page) = Some r"
        and ra: "\<forall>allUsers. r = Inr allUsers \<longrightarrow>
              allUsers = (acc @ page_candidates v ?page) @ page_candidates v (drop (off + n) ?full)"
        by blast
      have split: "drop off ?full = ?page @ drop (off + n) ?full"
        by (metis add.commute append_take_drop_id drop_drop)
      have "fetchLoop v db n off acc = Some r"
        using None False r by (subst fetchLoop.simps) (simp add: fetch_page_def)
      moreover have "\<forall>allUsers. r = Inr allUsers \<longrightarrow>
              allUsers = acc @ page_candidates v (drop off ?full)"
        using ra by (subst split) (simp add: page_candidates_append)
      ultimately show ?thesis by blast
    qed
  qed
qed

lemma fetchUsers_terminates: "\<exists>r. fetchUsers v db batchSize = Some r"
  using fetchLoop_result[of batchSize v db 0 "[]"]
  by (auto simp: fetchUsers_def batchSize_def)

lemma fetchUsers_candidates:
  assumes "fetchUsers v db batchSize = Some (Inr allUsers)"
  shows "allUsers = page_candidates v (candidate_query v db)"
  using fetchLoop_result[of batchSize v db 0 "[]"] assms
  by (auto simp: fetchUsers_def batchSize_def)

lemma fetchLoop_no_error:
  assumes "0 < n" and "\<forall>off. candidates_err db off = None"
  shows "fetchLoop v db n off acc \<noteq> Some (Inl e)"
proof (induction "length (candidate_query v db) - off" arbitrary: off acc rule: less_induct)
  case less
  let ?full = "candidate_query v db"
  let ?page = "take n (drop off ?full)"
  have None: "candidates_err db off = None" using assms(2) by simp
  show ?case
  proof (cases "length ?page < n")
    case True
    with None show ?thesis
      by (subst fetchLoop.simps) (auto simp: fetch_page_def min_def split: if_splits)
  next
    case False
    then have "off + n \<le> length ?full"
      using assms(1) by (simp add: min_def split: if_splits)
    with assms(1) have "length ?full - (off + n) < length ?full - off" by simp
    from less[OF this, of "acc @ page_candidates v ?page"] None False show ?thesis
      by (subst fetchLoop.simps) (simp add: fetch_page_def)
  qed
qed

lemma fetchUsers_no_error:
  assumes "\<forall>off. candidates_err db off = None"
  shows "fetchUsers v db batchSize = Some (Inr (page_candidates v (candidate_query v db)))"
proof -
  obtain r where r: "fetchUsers v db batchSize = Some r"
    using fetchUsers_terminates by blast
  have "r \<noteq> Inl e" for e
    using fetchLoop_no_error[OF _ assms, of batchSize v 0 "[]" e] r
    by (simp add: fetchUsers_def batchSize_def)
  then obtain allUsers where "r = Inr allUsers" by (cases r) auto
  with r fetchUsers_candidates[of v db allUsers] show ?thesis by simp
qed

subsection \<open>Candidates carry a recognised event type\<close>

lemma candidate_EventType:
  assumes "c \<in> set (page_candidates v (candidate_query v db))"
  shows "EventType c \<in> {''CREDIT_CARD_REJECTED'', ''AADHAR_FORM_DROPOFF'', ''AADHAAR_REJECT'',
           ''AADHAAR_FAILURE''}"
proof (cases v)
  case CreditCard
  with assms show ?thesis by (auto simp: declined_candidates_def)
next
  case Aadhaar
  with assms show ?thesis
    by (auto simp: status_candidates_def latest_status_query_def)
qed

lemma candidate_EventType_nonempty:
  assumes "fetchUsers v db batchSize = Some (Inr allUsers)" and "c \<in> set allUsers"
  shows "EventType c \<noteq> []"
  using candidate_EventType[of c v db] fetchUsers_candidates[OF assms(1)] assms(2) by auto

subsection \<open>The ledger query\<close>

lemma take1_sort_key:
  fixes f :: "'a \<Rightarrow> int"
  assumes "xs \<noteq> []"
  shows "\<exists>r. take 1 (sort_key f xs) = [r] \<and> r \<in> set xs \<and> (\<forall>x\<in>set xs. f r \<le> f x)"
proof -
  have "sort_key f xs \<noteq> []" using assms by (metis length_0_conv length_sort)
  then obtain r rs where eq: "sort_key f xs = r # rs" by (cases "sort_key f xs") auto
  have "sorted (map f (sort_key f xs))" by (rule sorted_sort_key)
  with eq have "\<forall>x\<in>set (r # rs). f r \<le> f x" by auto
  moreover have "set (r # rs) = set xs" using eq by (metis set_sort)
  ultimately show ?thesis using eq by auto
qed

lemma fetchUsers_declined_db:
  "fetchUsers CreditCard declined_db batchSize = Some (Inr [declined_candidate])"
  unfolding fetchUsers_def
  by (subst fetchLoop.simps)
     (simp add: fetch_page_def declined_db_def empty_db_def declined_query_def left_join_users_def
        example_user_def batchSize_def declined_candidates_def declined_candidate_def)

section \<open>Attempt sequencing\<close>

text \<open>
  C2. For every candidate the source emits and every identity: when the ledger lookup
  succeeds and the ledger holds no row for the identity and the candidate's event type,
  the resolved attempt number is 1; when it holds rows, the lookup returns the attempt
  \<open>N\<close> of a most recently updated one and the resolved attempt number is \<open>N + 1\<close>
  (Go's \<^verbatim>\<open>int\<close> addition, which is the integer successor below the greatest
  \<^verbatim>\<open>int\<close>). The same holds in both files.
\<close>

theorem attempt_resolution:
  assumes "fetchUsers v db batchSize = Some (Inr allUsers)"
    and "c \<in> set allUsers"
    and "status_err db userID (EventType c) = None"
  shows "(filter (\<lambda>r. ns_user_id r = userID \<and> ns_event_name r = EventType c)
            (notification_status db) = [] \<longrightarrow>
          (\<exists>status. fetchNotificationStatus db userID (EventType c) = Inr status \<and>
             resolveAttempt status = 1)) \<and>
         (filter (\<lambda>r. ns_user_id r = userID \<and> ns_event_name r = EventType c)
            (notification_status db) \<noteq> [] \<longrightarrow>
          (\<exists>r status.
             r \<in> set (notification_status db) \<and> ns_user_id r = userID \<and>
             ns_event_name r = EventType c \<and>
             (\<forall>r'\<in>set (notification_status db).
                ns_user_id r' = userID \<and> ns_event_name r' = EventType c \<longrightarrow>
                ns_updated_at r' \<le> ns_updated_at r) \<and>
             fetchNotificationStatus db userID (EventType c) = Inr status \<and>
             SAttempt status = ns_attempt r \<and>
             resolveAttempt status = ns_attempt r + 1 \<and>
             (sint (ns_attempt r) < 2 ^ 63 - 1 \<longrightarrow>
                sint (resolveAttempt status) = sint (ns_attempt r) + 1)))"
proof (intro conjI impI)
  let ?rows = "filter (\<lambda>r. ns_user_id r = userID \<and> ns_event_name r = EventType c)
                 (notification_status db)"
  assume "?rows = []"
  then show "\<exists>status. fetchNotificationStatus db userID (EventType c) = Inr status \<and>
               resolveAttempt status = 1"
    using assms(3)
    by (simp add: fetchNotificationStatus_def notification_status_query_def
          zero_NotificationStatusDetails_def resolveAttempt_def)
next
  let ?rows = "filter (\<lambda>r. ns_user_id r = userID \<and> ns_event_name r = EventType c)
                 (notification_status db)"
  assume "?rows \<noteq> []"
  from take1_sort_key[OF this, of "\<lambda>r. - ns_updated_at r"]
  obtain r where q: "notification_status_query db userID (EventType c) = [r]"
    and mem: "r \<in> set ?rows"
    and latest: "\<forall>x\<in>set ?rows. ns_updated_at x \<le> ns_updated_at r"
    unfolding notification_status_query_def by auto
  have ev: "EventType c \<noteq> []"
    using candidate_EventType_nonempty[OF assms(1,2)] .
  let ?status = "\<lparr>SEventName = ns_event_name r, SAttempt = ns_attempt r\<rparr>"
  have fetch: "fetchNotificationStatus db userID (EventType c) = Inr ?status"
    using assms(3) q by (simp add: fetchNotificationStatus_def)
  have name: "ns_event_name r = EventType c" using mem by simp
  have res: "resolveAttempt ?status = ns_attempt r + 1"
    using ev name by (simp add: resolveAttempt_def)
  have "sint (ns_attempt r) < 2 ^ 63 - 1 \<longrightarrow>
          sint (resolveAttempt ?status) = sint (ns_attempt r) + 1"
    using res sint_succ[of "ns_attempt r"] by simp
  with mem latest fetch res name
  show "\<exists>r status.
             r \<in> set (notification_status db) \<and> ns_user_id r = userID \<and>
             ns_event_name r = EventType c \<and>
             (\<forall>r'\<in>set (notification_status db).
                ns_user_id r' = userID \<and> ns_event_name r' = EventType c \<longrightarrow>
                ns_updated_at r' \<le> ns_updated_at r) \<and>
             fetchNotificationStatus db userID (EventType c) = Inr status \<and>
             SAttempt status = ns_attempt r \<and>
             resolveAttempt status = ns_attempt r + 1 \<and>
             (sint (ns_attempt r) < 2 ^ 63 - 1 \<longrightarrow>
                sint (resolveAttempt status) = sint (ns_attempt r) + 1)"
    by (intro exI[of _ r] exI[of _ ?status]) auto
qed

theorem attempt_resolution_witness:
  "fetchNotificationStatus declined_db 7 ''CREDIT_CARD_REJECTED''
     = Inr \<lparr>SEventName = ''CREDIT_CARD_REJECTED'', SAttempt = 2\<rparr> \<and>
   resolveAttempt \<lparr>SEventName = ''CREDIT_CARD_REJECTED'', SAttempt = 2\<rparr> = 3 \<and>
   (\<exists>status. fetchNotificationStatus declined_db 8 ''CREDIT_CARD_REJECTED'' = Inr status \<and>
      resolveAttempt status = 1)"
proof -
  have c: "declined_candidate \<in> set [declined_candidate]" by simp
  have e7: "status_err declined_db 7 (EventType declined_candidate) = None"
    by (simp add: declined_db_def empty_db_def)
  have e8: "status_err declined_db 8 (EventType declined_candidate) = None"
    by (simp add: declined_db_def empty_db_def)
  have ev: "EventType declined_candidate = ''CREDIT_CARD_REJECTED''"
    by (simp add: declined_candidate_def)
  have none8: "filter (\<lambda>r. ns_user_id r = 8 \<and> ns_event_name r = EventType declined_candidate)
            (notification_status declined_db) = []"
    by (simp add: declined_db_def empty_db_def)
  have "\<exists>status. fetchNotificationStatus declined_db 8 ''CREDIT_CARD_REJECTED'' = Inr status \<and>
      resolveAttempt status = 1"
    using attempt_resolution[OF fetchUsers_declined_db c e8] none8 ev by simp
  moreover have "fetchNotificationStatus declined_db 7 ''CREDIT_CARD_REJECTED''
     = Inr \<lparr>SEventName = ''CREDIT_CARD_REJECTED'', SAttempt = 2\<rparr>"
    by (simp add: fetchNotificationStatus_def notification_status_query_def declined_db_def
          empty_db_def)
  moreover have "resolveAttempt \<lparr>SEventName = ''CREDIT_CARD_REJECTED'', SAttempt = 2\<rparr> = 3"
    by (simp add: resolveAttempt_def)
  ultimately show ?thesis by blast
qed

subsection \<open>One step of the per-candidate loop\<close>

lemma processUser_assembles:
  assumes "userDetailsMap (MobileNumber (UserFlow c)) = Some userDetail"
    and "ID userDetail \<noteq> 0"
    and "fetchNotificationStatus db (ID userDetail) (EventType c) = Inr status"
    and "fetchNotificationConfig v db (EventType c) (resolveAttempt status) = Inr notificationConfig"
    and "CEventName notificationConfig \<noteq> []"
  shows "processUser v db envSOURCE clock userDetailsMap customHeadersMap st c =
           st\<lparr>notifications := notifications st @
                 [buildNotification v envSOURCE (clock (clock_reads st)) (UserFlow c) userDetail
                    (case customHeadersMap (ID userDetail) of
                       None \<Rightarrow> placeholderHeader v | Some h \<Rightarrow> h)
                    notificationConfig (resolveAttempt status) (EventType c)],
               clock_reads := Suc (clock_reads st)\<rparr>"
  using assms by (simp add: processUser_def Let_def)

lemma processUser_no_policy:
  assumes "userDetailsMap (MobileNumber (UserFlow c)) = Some userDetail"
    and "ID userDetail \<noteq> 0"
    and "fetchNotificationStatus db (ID userDetail) (EventType c) = Inr status"
    and "fetchNotificationConfig v db (EventType c) (resolveAttempt status) = Inr notificationConfig"
    and "CEventName notificationConfig = []"
  shows "processUser v db envSOURCE clock userDetailsMap customHeadersMap st c = st"
  using assms by (simp add: processUser_def Let_def)


lemma defaultSource_nonempty: "defaultSource v \<noteq> []"
  by (cases v) simp_all

lemma buildNotification_past_due:
  "newDelay userFlow notificationConfig currentTime < 0 \<Longrightarrow>
   buildNotification v envSOURCE currentTime userFlow userDetail customHeader notificationConfig
     attempt eventName = zero_Notification"
  by (simp add: buildNotification_def Let_def)

lemma buildNotification_due:
  assumes "\<not> newDelay userFlow notificationConfig currentTime < 0"
  shows "buildNotification v envSOURCE currentTime userFlow userDetail customHeader
           notificationConfig attempt eventName
         = \<lparr>Event = CEventName notificationConfig,
            Delay = newDelay userFlow notificationConfig currentTime,
            UserID = ID userDetail,
            Mobile = MobileNumber userFlow,
            PlainMobile = PlainMobileNumber userDetail,
            CurrentStatus = (case v of CreditCard \<Rightarrow> ''DECLINED'' | Aadhaar \<Rightarrow> Status userFlow),
            Attempt = attempt,
            Source = (if envSOURCE = [] then defaultSource v else envSOURCE),
            Channel = CChannel notificationConfig,
            Metadata =
              (case v of
                 CreditCard \<Rightarrow> [(''Name'', FullName userDetail), (''Reasons'', Reasons userFlow)]
               | Aadhaar \<Rightarrow> [(''Name'', FullName userDetail)]),
            DeviceToken = XDeviceToken customHeader,
            EventID = CEventID notificationConfig\<rparr>"
  using assms by (simp add: buildNotification_def Let_def)

lemma buildNotification_due_Source:
  assumes "\<not> newDelay userFlow notificationConfig currentTime < 0"
  shows "Source (buildNotification v envSOURCE currentTime userFlow userDetail customHeader
           notificationConfig attempt eventName) \<noteq> []"
  by (simp add: buildNotification_due[OF assms] defaultSource_nonempty)

lemma buildNotification_zero_iff:
  "buildNotification v envSOURCE currentTime userFlow userDetail customHeader notificationConfig
     attempt eventName = zero_Notification
   \<longleftrightarrow> newDelay userFlow notificationConfig currentTime < 0"
proof
  assume z: "buildNotification v envSOURCE currentTime userFlow userDetail customHeader
               notificationConfig attempt eventName = zero_Notification"
  show "newDelay userFlow notificationConfig currentTime < 0"
  proof (rule ccontr)
    assume "\<not> newDelay userFlow notificationConfig currentTime < 0"
    from buildNotification_due_Source[OF this, of v envSOURCE userDetail customHeader attempt eventName]
    show False using z by (simp add: zero_Notification_def)
  qed
next
  assume "newDelay userFlow notificationConfig currentTime < 0"
  then show "buildNotification v envSOURCE currentTime userFlow userDetail customHeader
               notificationConfig attempt eventName = zero_Notification"
    by (rule buildNotification_past_due)
qed

lemma newDelay_in_range:
  assumes "- (2 ^ 63) \<le> sint (CDelay notificationConfig) * 1000000000"
    and "sint (CDelay notificationConfig) * 1000000000 \<le> 2 ^ 63 - 1"
    and "- (2 ^ 63) \<le> CreatedAt userFlow + sint (CDelay notificationConfig) * 1000000000 - currentTime"
    and "CreatedAt userFlow + sint (CDelay notificationConfig) * 1000000000 - currentTime \<le> 2 ^ 63 - 1"
  shows "newDelay userFlow notificationConfig currentTime =
           real_of_int (CreatedAt userFlow + sint (CDelay notificationConfig) * 1000000000 - currentTime)
             / 1000000000"
proof -
  let ?ns = "sint (CDelay notificationConfig) * 1000000000"
  have s: "sint Second = 1000000000" by (simp add: Second_def)
  have "sint (CDelay notificationConfig * Second) = signed_take_bit 63 ?ns"
    by (simp add: sint_word_mult s)
  also have "\<dots> = ?ns"
    using assms(1,2) by (intro signed_take_bit_int_eq_self) simp_all
  finally have mul: "sint (CDelay notificationConfig * Second) = ?ns" .
  let ?d = "CreatedAt userFlow + ?ns - currentTime"
  have sub: "time_Sub (time_Add (CreatedAt userFlow) (CDelay notificationConfig * Second)) currentTime
               = word_of_int ?d"
    using assms(3,4) by (simp add: time_Sub_def time_Add_def mul)
  have "sint (word_of_int ?d :: 64 word) = signed_take_bit 63 ?d"
    unfolding sint_sbintrunc' by simp
  also have "\<dots> = ?d"
    using assms(3,4) by (intro signed_take_bit_int_eq_self) simp_all
  finally have "sint (word_of_int ?d :: 64 word) = ?d" .
  then show ?thesis
    by (simp only: newDelay_def Let_def sub Seconds_exact)
qed

section \<open>Past-due suppression\<close>

text \<open>
  C4. The assembler computes the remaining delay as \<open>newDelay\<close>, the seconds of
  \<^verbatim>\<open>CreatedAt.Add(Delay * Second).Sub(Now())\<close>. It returns the empty notification exactly
  when that value is negative and the assembled record, carrying the value as its
  \<^verbatim>\<open>Delay\<close>, otherwise; so a remaining delay of 0 is emitted. The reporter never prints
  the empty notification, and no error is collected for the candidate. While the delay
  in nanoseconds and the difference to the clock fit \<^verbatim>\<open>time.Duration\<close>, the value is
  \<open>(occurredAt + delay - now)\<close> in seconds.
\<close>

theorem past_due_suppression:
  "(buildNotification v envSOURCE currentTime userFlow userDetail customHeader notificationConfig
      attempt eventName = zero_Notification
    \<longleftrightarrow> newDelay userFlow notificationConfig currentTime < 0) \<and>
   (0 \<le> newDelay userFlow notificationConfig currentTime \<longrightarrow>
      Delay (buildNotification v envSOURCE currentTime userFlow userDetail customHeader
               notificationConfig attempt eventName)
        = newDelay userFlow notificationConfig currentTime \<and>
      Event (buildNotification v envSOURCE currentTime userFlow userDetail customHeader
               notificationConfig attempt eventName)
        = CEventName notificationConfig) \<and>
   (newDelay userFlow notificationConfig currentTime < 0 \<longrightarrow>
      printNotifications (ns @ [buildNotification v envSOURCE currentTime userFlow userDetail
         customHeader notificationConfig attempt eventName]) = printNotifications ns) \<and>
   (userDetailsMap (MobileNumber (UserFlow c)) = Some userDetail \<and> ID userDetail \<noteq> 0 \<and>
    fetchNotificationStatus db (ID userDetail) (EventType c) = Inr status \<and>
    fetchNotificationConfig v db (EventType c) (resolveAttempt status) = Inr notificationConfig \<and>
    CEventName notificationConfig \<noteq> [] \<longrightarrow>
      errs (processUser v db envSOURCE clock userDetailsMap customHeadersMap st c) = errs st) \<and>
   (- (2 ^ 63) \<le> sint (CDelay notificationConfig) * 1000000000 \<and>
    sint (CDelay notificationConfig) * 1000000000 \<le> 2 ^ 63 - 1 \<and>
    - (2 ^ 63) \<le> CreatedAt userFlow + sint (CDelay notificationConfig) * 1000000000 - currentTime \<and>
    CreatedAt userFlow + sint (CDelay notificationConfig) * 1000000000 - currentTime \<le> 2 ^ 63 - 1 \<longrightarrow>
      newDelay userFlow notificationConfig currentTime =
        real_of_int (CreatedAt userFlow + sint (CDelay notificationConfig) * 1000000000 - currentTime)
          / 1000000000)"
proof (intro conjI impI)
  show "buildNotification v envSOURCE currentTime userFlow userDetail customHeader
          notificationConfig attempt eventName = zero_Notification
        \<longleftrightarrow> newDelay userFlow notificationConfig currentTime < 0"
    by (rule buildNotification_zero_iff)
next
  assume "0 \<le> newDelay userFlow notificationConfig currentTime"
  then have nn: "\<not> newDelay userFlow notificationConfig currentTime < 0" by simp
  show "Delay (buildNotification v envSOURCE currentTime userFlow userDetail customHeader
               notificationConfig attempt eventName)
        = newDelay userFlow notificationConfig currentTime"
    by (simp add: buildNotification_due[OF nn])
  show "Event (buildNotification v envSOURCE currentTime userFlow userDetail customHeader
               notificationConfig attempt eventName)
        = CEventName notificationConfig"
    by (simp add: buildNotification_due[OF nn])
next
  assume "newDelay userFlow notificationConfig currentTime < 0"
  then show "printNotifications (ns @ [buildNotification v envSOURCE currentTime userFlow
         userDetail customHeader notificationConfig attempt eventName]) = printNotifications ns"
    by (simp add: buildNotification_past_due printNotifications_def zero_Notification_def)
next
  assume "userDetailsMap (MobileNumber (UserFlow c)) = Some userDetail \<and> ID userDetail \<noteq> 0 \<and>
    fetchNotificationStatus db (ID userDetail) (EventType c) = Inr status \<and>
    fetchNotificationConfig v db (EventType c) (resolveAttempt status) = Inr notificationConfig \<and>
    CEventName notificationConfig \<noteq> []"
  then show "errs (processUser v db envSOURCE clock userDetailsMap customHeadersMap st c) = errs st"
    by (simp add: processUser_assembles)
next
  assume "- (2 ^ 63) \<le> sint (CDelay notificationConfig) * 1000000000 \<and>
    sint (CDelay notificationConfig) * 1000000000 \<le> 2 ^ 63 - 1 \<and>
    - (2 ^ 63) \<le> CreatedAt userFlow + sint (CDelay notificationConfig) * 1000000000 - currentTime \<and>
    CreatedAt userFlow + sint (CDelay notificationConfig) * 1000000000 - currentTime \<le> 2 ^ 63 - 1"
  then show "newDelay userFlow notificationConfig currentTime =
        real_of_int (CreatedAt userFlow + sint (CDelay notificationConfig) * 1000000000 - currentTime)
          / 1000000000"
    using newDelay_in_range by blast
qed

lemma declined_status:
  "fetchNotificationStatus declined_db 7 ''CREDIT_CARD_REJECTED''
     = Inr \<lparr>SEventName = ''CREDIT_CARD_REJECTED'', SAttempt = 2\<rparr>"
  by (simp add: fetchNotificationStatus_def notification_status_query_def declined_db_def
        empty_db_def)

lemma declined_config:
  "fetchNotificationConfig CreditCard declined_db ''CREDIT_CARD_REJECTED'' 3 = Inr declined_policy"
  by (simp add: notification_config_query_def scan_notification_config_def declined_db_def
        empty_db_def declined_policy_def)

lemma declined_delay_due: "newDelay declined_flow declined_policy 4600000000000 = 0"
  by (simp add: newDelay_def time_Add_def time_Sub_def Second_def Seconds_exact
        declined_flow_def declined_policy_def)

lemma declined_delay_half: "newDelay declined_flow declined_policy 2800000000000 = 1800"
  by (simp add: newDelay_def time_Add_def time_Sub_def Second_def Seconds_exact
        declined_flow_def declined_policy_def)

lemma declined_delay_late: "newDelay declined_flow declined_policy 4600010000000 = - 1 / 100"
  by (simp add: newDelay_def time_Add_def time_Sub_def Second_def Seconds_exact
        declined_flow_def declined_policy_def)

lemma declined_delay_past: "newDelay declined_flow declined_policy 8200000000000 = - 3600"
  by (simp add: newDelay_def time_Add_def time_Sub_def Second_def Seconds_exact
        declined_flow_def declined_policy_def)

theorem past_due_suppression_witness:
  "newDelay declined_flow declined_policy 4600000000000 = 0 \<and>
   buildNotification CreditCard [] 4600000000000 declined_flow example_user
       (placeholderHeader CreditCard) declined_policy 3 ''CREDIT_CARD_REJECTED''
     \<noteq> zero_Notification \<and>
   Delay (buildNotification CreditCard [] 4600000000000 declined_flow example_user
       (placeholderHeader CreditCard) declined_policy 3 ''CREDIT_CARD_REJECTED'') = 0 \<and>
   newDelay declined_flow declined_policy 4600010000000 = - 1 / 100 \<and>
   buildNotification CreditCard [] 4600010000000 declined_flow example_user
       (placeholderHeader CreditCard) declined_policy 3 ''CREDIT_CARD_REJECTED''
     = zero_Notification \<and>
   printNotifications [buildNotification CreditCard [] 4600010000000 declined_flow example_user
       (placeholderHeader CreditCard) declined_policy 3 ''CREDIT_CARD_REJECTED''] = [] \<and>
   errs (processUser CreditCard declined_db [] (\<lambda>n. 4600010000000) declined_profiles Map.empty
           initial_state declined_candidate) = []"
proof -
  note due = past_due_suppression
    [of CreditCard "[]" 4600000000000 declined_flow example_user "placeholderHeader CreditCard"
        declined_policy 3 "''CREDIT_CARD_REJECTED''" "[]" declined_profiles declined_candidate
        declined_db "\<lparr>SEventName = ''CREDIT_CARD_REJECTED'', SAttempt = 2\<rparr>"
        "\<lambda>n. 4600010000000" Map.empty initial_state]
  note late = past_due_suppression
    [of CreditCard "[]" 4600010000000 declined_flow example_user "placeholderHeader CreditCard"
        declined_policy 3 "''CREDIT_CARD_REJECTED''" "[]" declined_profiles declined_candidate
        declined_db "\<lparr>SEventName = ''CREDIT_CARD_REJECTED'', SAttempt = 2\<rparr>"
        "\<lambda>n. 4600010000000" Map.empty initial_state]
  have chain: "declined_profiles (MobileNumber (UserFlow declined_candidate)) = Some example_user \<and>
    ID example_user \<noteq> 0 \<and>
    fetchNotificationStatus declined_db (ID example_user) (EventType declined_candidate)
      = Inr \<lparr>SEventName = ''CREDIT_CARD_REJECTED'', SAttempt = 2\<rparr> \<and>
    fetchNotificationConfig CreditCard declined_db (EventType declined_candidate)
      (resolveAttempt \<lparr>SEventName = ''CREDIT_CARD_REJECTED'', SAttempt = 2\<rparr>) = Inr declined_policy \<and>
    CEventName declined_policy \<noteq> []"
    using declined_status declined_config
    by (simp add: declined_profiles_def declined_candidate_def example_user_def resolveAttempt_def
          declined_policy_def)
  have "errs (processUser CreditCard declined_db [] (\<lambda>n. 4600010000000) declined_profiles Map.empty
           initial_state declined_candidate) = []"
    using late chain by (simp add: initial_state_def)
  moreover have "buildNotification CreditCard [] 4600000000000 declined_flow example_user
       (placeholderHeader CreditCard) declined_policy 3 ''CREDIT_CARD_REJECTED''
     \<noteq> zero_Notification"
    using due declined_delay_due by simp
  moreover have "Delay (buildNotification CreditCard [] 4600000000000 declined_flow example_user
       (placeholderHeader CreditCard) declined_policy 3 ''CREDIT_CARD_REJECTED'') = 0"
    using due declined_delay_due by simp
  moreover have "buildNotification CreditCard [] 4600010000000 declined_flow example_user
       (placeholderHeader CreditCard) declined_policy 3 ''CREDIT_CARD_REJECTED''
     = zero_Notification"
    using late declined_delay_late by simp
  moreover have "printNotifications [buildNotification CreditCard [] 4600010000000 declined_flow
       example_user (placeholderHeader CreditCard) declined_policy 3 ''CREDIT_CARD_REJECTED''] = []"
    using late declined_delay_late by (simp add: printNotifications_def zero_Notification_def)
  ultimately show ?thesis
    using declined_delay_due declined_delay_late by blast
qed


section \<open>Missing policy\<close>




section \<open>Device metadata\<close>

subsection \<open>The first row met for a user stays in the map\<close>

lemma foldl_insertCustomHeader:
  "foldl insertCustomHeader m rows userID =
     (case m userID of
        Some h \<Rightarrow> Some h
      | None \<Rightarrow>
          map_option (\<lambda>r. \<lparr>XPlatform = ch_x_platform r, XDeviceToken = ch_x_device_token r\<rparr>)
            (find (\<lambda>r. ch_user_id r = userID) rows))"
proof (induction rows arbitrary: m)
  case Nil
  then show ?case by (simp split: option.splits)
next
  case (Cons row rows)
  have "foldl insertCustomHeader m (row # rows) userID
          = foldl insertCustomHeader (insertCustomHeader m row) rows userID"
    by simp
  also have "\<dots> =
     (case insertCustomHeader m row userID of
        Some h \<Rightarrow> Some h
      | None \<Rightarrow>
          map_option (\<lambda>r. \<lparr>XPlatform = ch_x_platform r, XDeviceToken = ch_x_device_token r\<rparr>)
            (find (\<lambda>r. ch_user_id r = userID) rows))"
    by (rule Cons.IH)
  also have "\<dots> =
     (case m userID of
        Some h \<Rightarrow> Some h
      | None \<Rightarrow>
          map_option (\<lambda>r. \<lparr>XPlatform = ch_x_platform r, XDeviceToken = ch_x_device_token r\<rparr>)
            (find (\<lambda>r. ch_user_id r = userID) (row # rows)))"
    by (auto simp: insertCustomHeader_def split: option.splits)
  finally show ?case .
qed

lemma find_hd_filter:
  "find P xs = (case filter P xs of [] \<Rightarrow> None | x # _ \<Rightarrow> Some x)"
  by (induction xs) simp_all

lemma hd_sort_key_least:
  fixes f :: "'a \<Rightarrow> int"
  assumes "sort_key f xs = r # rs"
  shows "r \<in> set xs \<and> (\<forall>x\<in>set xs. f r \<le> f x)"
proof -
  have "sorted (map f (sort_key f xs))" by (rule sorted_sort_key)
  with assms have "\<forall>x\<in>set (r # rs). f r \<le> f x" by auto
  moreover have "set (r # rs) = set xs" using assms by (metis set_sort)
  ultimately show ?thesis by auto
qed

lemma custom_headers_query_first:
  assumes "find (\<lambda>r. ch_user_id r = userID) (custom_headers_query db userIDs) = Some r"
  shows "r \<in> set (custom_headers db) \<and> ch_user_id r = userID \<and> userID \<in> set userIDs \<and>
         (\<forall>r'\<in>set (custom_headers db).
            ch_user_id r' = userID \<longrightarrow> ch_updated_at r' \<le> ch_updated_at r)"
proof -
  let ?P = "\<lambda>r. ch_user_id r = userID"
  let ?F = "filter (\<lambda>r. ch_user_id r \<in> set userIDs) (custom_headers db)"
  have "filter ?P (custom_headers_query db userIDs)
          = filter ?P (sort_key (\<lambda>r. - ch_updated_at r) ?F)"
    unfolding custom_headers_query_def by (rule sort_key_stable)
  also have "\<dots> = sort_key (\<lambda>r. - ch_updated_at r) (filter ?P ?F)"
    by (rule filter_sort)
  finally have eq: "filter ?P (custom_headers_query db userIDs)
                      = sort_key (\<lambda>r. - ch_updated_at r) (filter ?P ?F)" .
  from assms obtain rs where "filter ?P (custom_headers_query db userIDs) = r # rs"
    by (auto simp: find_hd_filter split: list.splits)
  with eq have "sort_key (\<lambda>r. - ch_updated_at r) (filter ?P ?F) = r # rs" by simp
  from hd_sort_key_least[OF this]
  have mem: "r \<in> set (filter ?P ?F)"
    and least: "\<forall>x\<in>set (filter ?P ?F). ch_updated_at x \<le> ch_updated_at r"
    by auto
  from mem have "r \<in> set (custom_headers db)" "ch_user_id r = userID" "userID \<in> set userIDs"
    by auto
  moreover have "\<forall>r'\<in>set (custom_headers db).
            ch_user_id r' = userID \<longrightarrow> ch_updated_at r' \<le> ch_updated_at r"
    using least \<open>userID \<in> set userIDs\<close> by auto
  ultimately show ?thesis by blast
qed

lemma custom_headers_query_set:
  "set (custom_headers_query db userIDs)
     = {r \<in> set (custom_headers db). ch_user_id r \<in> set userIDs}"
  by (simp add: custom_headers_query_def)

lemma find_None_iff_no_row:
  "find (\<lambda>r. ch_user_id r = userID) (custom_headers_query db userIDs) = None
   \<longleftrightarrow> (userID \<in> set userIDs \<longrightarrow> (\<forall>r\<in>set (custom_headers db). ch_user_id r \<noteq> userID))"
  by (auto simp: find_None_iff custom_headers_query_set)

text \<open>
  C8. For every user ID the map built by \<^verbatim>\<open>fetchCustomHeader\<close> holds the first row of
  that user in the order of the query's result, whatever that list is; an insertion never
  replaces an entry that is present; and since the result is ordered by user and
  descending update time, the row kept for a queried user with rows in the table is one
  with the latest update time of that user.
\<close>

theorem first_device_row_wins:
  "buildCustomHeadersMap rows userID
     = map_option (\<lambda>r. \<lparr>XPlatform = ch_x_platform r, XDeviceToken = ch_x_device_token r\<rparr>)
         (find (\<lambda>r. ch_user_id r = userID) rows) \<and>
   (customHeadersMap userID = Some h \<longrightarrow>
      insertCustomHeader customHeadersMap row userID = Some h \<and>
      foldl insertCustomHeader customHeadersMap rows userID = Some h) \<and>
   (fetchCustomHeader db userIDs = Inr m \<and> userID \<in> set userIDs \<and>
    (\<exists>r\<in>set (custom_headers db). ch_user_id r = userID) \<longrightarrow>
      (\<exists>r\<in>set (custom_headers db).
         ch_user_id r = userID \<and>
         (\<forall>r'\<in>set (custom_headers db).
            ch_user_id r' = userID \<longrightarrow> ch_updated_at r' \<le> ch_updated_at r) \<and>
         m userID = Some \<lparr>XPlatform = ch_x_platform r, XDeviceToken = ch_x_device_token r\<rparr>))"
proof (intro conjI impI)
  show "buildCustomHeadersMap rows userID
     = map_option (\<lambda>r. \<lparr>XPlatform = ch_x_platform r, XDeviceToken = ch_x_device_token r\<rparr>)
         (find (\<lambda>r. ch_user_id r = userID) rows)"
    by (simp add: buildCustomHeadersMap_def foldl_insertCustomHeader)
next
  assume "customHeadersMap userID = Some h"
  then show "insertCustomHeader customHeadersMap row userID = Some h"
    by (auto simp: insertCustomHeader_def)
next
  assume "customHeadersMap userID = Some h"
  then show "foldl insertCustomHeader customHeadersMap rows userID = Some h"
    by (simp add: foldl_insertCustomHeader)
next
  assume a: "fetchCustomHeader db userIDs = Inr m \<and> userID \<in> set userIDs \<and>
    (\<exists>r\<in>set (custom_headers db). ch_user_id r = userID)"
  then have m: "m = buildCustomHeadersMap (custom_headers_query db userIDs)"
    by (auto simp: fetchCustomHeader_def split: option.splits)
  from a have "find (\<lambda>r. ch_user_id r = userID) (custom_headers_query db userIDs) \<noteq> None"
    by (simp add: find_None_iff_no_row)
  then obtain r where f: "find (\<lambda>r. ch_user_id r = userID) (custom_headers_query db userIDs) = Some r"
    by auto
  have "m userID = Some \<lparr>XPlatform = ch_x_platform r, XDeviceToken = ch_x_device_token r\<rparr>"
    by (simp add: m buildCustomHeadersMap_def foldl_insertCustomHeader f)
  with custom_headers_query_first[OF f]
  show "\<exists>r\<in>set (custom_headers db).
         ch_user_id r = userID \<and>
         (\<forall>r'\<in>set (custom_headers db).
            ch_user_id r' = userID \<longrightarrow> ch_updated_at r' \<le> ch_updated_at r) \<and>
         m userID = Some \<lparr>XPlatform = ch_x_platform r, XDeviceToken = ch_x_device_token r\<rparr>"
    by blast
qed

lemma device_query: "custom_headers_query device_db [7] = [device_rows ! 1, device_rows ! 2, device_rows ! 0]"
  by (simp add: custom_headers_query_def device_db_def declined_db_def empty_db_def
        device_rows_def)

theorem first_device_row_wins_witness:
  "custom_headers_query device_db [7] = [device_rows ! 1, device_rows ! 2, device_rows ! 0] \<and>
   buildCustomHeadersMap (custom_headers_query device_db [7]) 7
     = Some \<lparr>XPlatform = ''android'', XDeviceToken = ''tok-new''\<rparr> \<and>
   insertCustomHeader [7 \<mapsto> \<lparr>XPlatform = ''android'', XDeviceToken = ''tok-new''\<rparr>]
       (device_rows ! 0) 7
     = Some \<lparr>XPlatform = ''android'', XDeviceToken = ''tok-new''\<rparr>"
  using first_device_row_wins
    [of "custom_headers_query device_db [7]" 7
        "[7 \<mapsto> \<lparr>XPlatform = ''android'', XDeviceToken = ''tok-new''\<rparr>]"
        "\<lparr>XPlatform = ''android'', XDeviceToken = ''tok-new''\<rparr>" "device_rows ! 0"
        device_db "[7]" "buildCustomHeadersMap (custom_headers_query device_db [7])"]
    device_query
  by (simp add: device_rows_def)

text \<open>
  C7. A candidate with a resolved profile whose identity has no row in
  \<^verbatim>\<open>custom_headers\<close> has no entry in the map, and the loop treats it exactly as if the
  map held the placeholder header for it: it goes on to the ledger and policy lookups,
  and when a policy is found the notification is built with the placeholder, so an
  emitted record carries the placeholder device token (\<^verbatim>\<open>"Not Available"\<close> in the
  credit-card file, the empty string in the Aadhaar file).
\<close>

theorem missing_device_metadata_uses_placeholder:
  assumes "fetchCustomHeader db userIDs = Inr customHeadersMap"
    and "\<forall>h\<in>set (custom_headers db). ch_user_id h \<noteq> ID userDetail"
    and "userDetailsMap (MobileNumber (UserFlow c)) = Some userDetail"
    and "ID userDetail \<noteq> 0"
  shows "customHeadersMap (ID userDetail) = None \<and>
         processUser v db envSOURCE clock userDetailsMap customHeadersMap st c
           = processUser v db envSOURCE clock userDetailsMap
               (customHeadersMap(ID userDetail \<mapsto> placeholderHeader v)) st c \<and>
         (\<forall>status notificationConfig.
            fetchNotificationStatus db (ID userDetail) (EventType c) = Inr status \<and>
            fetchNotificationConfig v db (EventType c) (resolveAttempt status)
              = Inr notificationConfig \<and>
            CEventName notificationConfig \<noteq> [] \<longrightarrow>
              notifications (processUser v db envSOURCE clock userDetailsMap customHeadersMap st c)
                = notifications st @
                    [buildNotification v envSOURCE (clock (clock_reads st)) (UserFlow c) userDetail
                       (placeholderHeader v) notificationConfig (resolveAttempt status)
                       (EventType c)] \<and>
              (0 \<le> newDelay (UserFlow c) notificationConfig (clock (clock_reads st)) \<longrightarrow>
                 DeviceToken (buildNotification v envSOURCE (clock (clock_reads st)) (UserFlow c)
                    userDetail (placeholderHeader v) notificationConfig (resolveAttempt status)
                    (EventType c))
                 = (case v of CreditCard \<Rightarrow> ''Not Available'' | Aadhaar \<Rightarrow> [])))"
proof (intro conjI allI impI)
  have m: "customHeadersMap = buildCustomHeadersMap (custom_headers_query db userIDs)"
    using assms(1) by (auto simp: fetchCustomHeader_def split: option.splits)
  have "find (\<lambda>r. ch_user_id r = ID userDetail) (custom_headers_query db userIDs) = None"
    using assms(2) by (simp add: find_None_iff_no_row)
  then show none: "customHeadersMap (ID userDetail) = None"
    by (simp add: m buildCustomHeadersMap_def foldl_insertCustomHeader)
  show "processUser v db envSOURCE clock userDetailsMap customHeadersMap st c
           = processUser v db envSOURCE clock userDetailsMap
               (customHeadersMap(ID userDetail \<mapsto> placeholderHeader v)) st c"
    using none assms(3,4) by (simp add: processUser_def Let_def)
  fix status notificationConfig
  assume a: "fetchNotificationStatus db (ID userDetail) (EventType c) = Inr status \<and>
            fetchNotificationConfig v db (EventType c) (resolveAttempt status)
              = Inr notificationConfig \<and>
            CEventName notificationConfig \<noteq> []"
  then show "notifications (processUser v db envSOURCE clock userDetailsMap customHeadersMap st c)
                = notifications st @
                    [buildNotification v envSOURCE (clock (clock_reads st)) (UserFlow c) userDetail
                       (placeholderHeader v) notificationConfig (resolveAttempt status)
                       (EventType c)]"
    using assms(3,4) none by (simp add: processUser_def Let_def)
  assume "0 \<le> newDelay (UserFlow c) notificationConfig (clock (clock_reads st))"
  then have nn: "\<not> newDelay (UserFlow c) notificationConfig (clock (clock_reads st)) < 0"
    by simp
  show "DeviceToken (buildNotification v envSOURCE (clock (clock_reads st)) (UserFlow c)
                    userDetail (placeholderHeader v) notificationConfig (resolveAttempt status)
                    (EventType c))
                 = (case v of CreditCard \<Rightarrow> ''Not Available'' | Aadhaar \<Rightarrow> [])"
    by (cases v) (simp_all add: buildNotification_due[OF nn])
qed

lemma declined_chain:
  "declined_profiles (MobileNumber (UserFlow declined_candidate)) = Some example_user \<and>
   ID example_user \<noteq> 0 \<and>
   fetchNotificationStatus declined_db (ID example_user) (EventType declined_candidate)
     = Inr \<lparr>SEventName = ''CREDIT_CARD_REJECTED'', SAttempt = 2\<rparr> \<and>
   fetchNotificationConfig CreditCard declined_db (EventType declined_candidate)
     (resolveAttempt \<lparr>SEventName = ''CREDIT_CARD_REJECTED'', SAttempt = 2\<rparr>) = Inr declined_policy \<and>
   CEventName declined_policy \<noteq> []"
  using declined_status declined_config
  by (simp add: declined_profiles_def declined_candidate_def example_user_def resolveAttempt_def
        declined_policy_def)

theorem missing_device_metadata_uses_placeholder_witness:
  "buildCustomHeadersMap (custom_headers_query declined_db [7]) 7 = None \<and>
   notifications (processUser CreditCard declined_db [] (\<lambda>n. 2800000000000) declined_profiles
      (buildCustomHeadersMap (custom_headers_query declined_db [7])) initial_state
      declined_candidate)
     = [buildNotification CreditCard [] 2800000000000 declined_flow example_user
          (placeholderHeader CreditCard) declined_policy 3 ''CREDIT_CARD_REJECTED''] \<and>
   DeviceToken (buildNotification CreditCard [] 2800000000000 declined_flow example_user
          (placeholderHeader CreditCard) declined_policy 3 ''CREDIT_CARD_REJECTED'')
     = ''Not Available''"
proof -
  have h1: "fetchCustomHeader declined_db [7]
              = Inr (buildCustomHeadersMap (custom_headers_query declined_db [7]))"
    by (simp add: fetchCustomHeader_def declined_db_def empty_db_def)
  have h2: "\<forall>h\<in>set (custom_headers declined_db). ch_user_id h \<noteq> ID example_user"
    by (simp add: declined_db_def empty_db_def)
  have h3: "declined_profiles (MobileNumber (UserFlow declined_candidate)) = Some example_user"
    using declined_chain by simp
  have h4: "ID example_user \<noteq> 0" by (simp add: example_user_def)
  note t = missing_device_metadata_uses_placeholder
    [where db = declined_db and userIDs = "[7]"
       and customHeadersMap = "buildCustomHeadersMap (custom_headers_query declined_db [7])"
       and userDetail = example_user and userDetailsMap = declined_profiles
       and c = declined_candidate and v = CreditCard and envSOURCE = "[]"
       and clock = "\<lambda>n. 2800000000000" and st = initial_state, OF h1 h2 h3 h4]
  have flow: "UserFlow declined_candidate = declined_flow"
    by (simp add: declined_candidate_def declined_flow_def)
  have att: "resolveAttempt \<lparr>SEventName = ''CREDIT_CARD_REJECTED'', SAttempt = 2\<rparr> = 3"
    by (simp add: resolveAttempt_def)
  have ev: "EventType declined_candidate = ''CREDIT_CARD_REJECTED''"
    by (simp add: declined_candidate_def)
  from t have none: "buildCustomHeadersMap (custom_headers_query declined_db [7]) 7 = None"
    by (simp add: example_user_def)
  have pre: "fetchNotificationStatus declined_db (ID example_user) (EventType declined_candidate)
       = Inr \<lparr>SEventName = ''CREDIT_CARD_REJECTED'', SAttempt = 2\<rparr> \<and>
     fetchNotificationConfig CreditCard declined_db (EventType declined_candidate)
       (resolveAttempt \<lparr>SEventName = ''CREDIT_CARD_REJECTED'', SAttempt = 2\<rparr>)
       = Inr declined_policy \<and>
     CEventName declined_policy \<noteq> []"
    using declined_chain by blast
  note u = t[THEN conjunct2, THEN conjunct2, rule_format, OF pre]
  from u declined_delay_half
  have "notifications (processUser CreditCard declined_db [] (\<lambda>n. 2800000000000) declined_profiles
      (buildCustomHeadersMap (custom_headers_query declined_db [7])) initial_state
      declined_candidate)
     = [buildNotification CreditCard [] 2800000000000 declined_flow example_user
          (placeholderHeader CreditCard) declined_policy 3 ''CREDIT_CARD_REJECTED''] \<and>
   DeviceToken (buildNotification CreditCard [] 2800000000000 declined_flow example_user
          (placeholderHeader CreditCard) declined_policy 3 ''CREDIT_CARD_REJECTED'')
     = ''Not Available''"
    by (simp add: flow att ev initial_state_def)
  with none show ?thesis by blast
qed


section \<open>Whole runs\<close>

subsection \<open>Runs on the example stores\<close>

lemma main_from_fetch:
  assumes "fetchUsers v db batchSize = Some (Inr allUsers)"
  shows "main v db envSOURCE clock = Some (main_from_candidates v db envSOURCE clock allUsers)"
  using assms by (simp add: main_def)

lemma declined_maps:
  "collectMobileNumbers [declined_candidate] = [''+919990001'']"
  "fetchUserDetails declined_db [''+919990001''] = Inr declined_profiles"
  "collectUserIDs declined_profiles [''+919990001''] = [7]"
  "fetchCustomHeader declined_db [7] = Inr Map.empty"
  by (simp_all add: collectMobileNumbers_def declined_candidate_def fetchUserDetails_def
        declined_db_def empty_db_def example_user_def declined_profiles_def collectUserIDs_def
        List.map_filter_simps fetchCustomHeader_def custom_headers_query_def
        buildCustomHeadersMap_def)

lemma declined_step:
  "processUser CreditCard declined_db [] clock declined_profiles Map.empty initial_state
     declined_candidate
   = \<lparr>notifications =
        [buildNotification CreditCard [] (clock 0) declined_flow example_user
           (placeholderHeader CreditCard) declined_policy 3 ''CREDIT_CARD_REJECTED''],
      errs = [], clock_reads = 1\<rparr>"
proof -
  have flow: "UserFlow declined_candidate = declined_flow"
    by (simp add: declined_candidate_def declined_flow_def)
  have att: "resolveAttempt \<lparr>SEventName = ''CREDIT_CARD_REJECTED'', SAttempt = 2\<rparr> = 3"
    by (simp add: resolveAttempt_def)
  have ev: "EventType declined_candidate = ''CREDIT_CARD_REJECTED''"
    by (simp add: declined_candidate_def)
  have "processUser CreditCard declined_db [] clock declined_profiles Map.empty initial_state
          declined_candidate
        = initial_state\<lparr>notifications := notifications initial_state @
                 [buildNotification CreditCard [] (clock (clock_reads initial_state))
                    (UserFlow declined_candidate) example_user
                    (case Map.empty (ID example_user) of
                       None \<Rightarrow> placeholderHeader CreditCard | Some h \<Rightarrow> h)
                    declined_policy
                    (resolveAttempt \<lparr>SEventName = ''CREDIT_CARD_REJECTED'', SAttempt = 2\<rparr>)
                    (EventType declined_candidate)],
               clock_reads := Suc (clock_reads initial_state)\<rparr>"
    using declined_chain
    by (intro processUser_assembles
          [where userDetail = example_user
             and status = "\<lparr>SEventName = ''CREDIT_CARD_REJECTED'', SAttempt = 2\<rparr>"]) simp_all
  then show ?thesis
    by (simp add: flow att ev initial_state_def)
qed

lemma declined_run:
  "main CreditCard declined_db [] clock =
     Some \<lparr>exit_code = 0,
           reporter_input =
             [buildNotification CreditCard [] (clock 0) declined_flow example_user
                (placeholderHeader CreditCard) declined_policy 3 ''CREDIT_CARD_REJECTED''],
           printed = printNotifications
             [buildNotification CreditCard [] (clock 0) declined_flow example_user
                (placeholderHeader CreditCard) declined_policy 3 ''CREDIT_CARD_REJECTED''],
           error_report = []\<rparr>"
  by (simp add: main_from_fetch[OF fetchUsers_declined_db] main_from_candidates_def
        declined_maps processUsers_def declined_step reportErrors_def)

section \<open>What the reporter receives\<close>

subsection \<open>Every entry of the loop's list is the empty notification or has an event\<close>

lemma processUser_entries:
  assumes "\<forall>n\<in>set (notifications st). n = zero_Notification \<or> Event n \<noteq> []"
  shows "\<forall>n\<in>set (notifications
            (processUser v db envSOURCE clock userDetailsMap customHeadersMap st c)).
           n = zero_Notification \<or> Event n \<noteq> []"
proof -
  have b: "CEventName notificationConfig \<noteq> [] \<Longrightarrow>
           buildNotification v envSOURCE t userFlow userDetail customHeader notificationConfig
             attempt eventName = zero_Notification \<or>
           Event (buildNotification v envSOURCE t userFlow userDetail customHeader
             notificationConfig attempt eventName) \<noteq> []"
    for t userFlow userDetail customHeader notificationConfig attempt eventName
    by (cases "newDelay userFlow notificationConfig t < 0")
       (simp_all add: buildNotification_past_due buildNotification_due)
  show ?thesis
    using assms b
    by (auto simp: processUser_def Let_def split: option.splits sum.splits)
qed

lemma processUsers_entries:
  assumes "\<forall>n\<in>set (notifications st). n = zero_Notification \<or> Event n \<noteq> []"
  shows "\<forall>n\<in>set (notifications
            (processUsers v db envSOURCE clock userDetailsMap customHeadersMap st allUsers)).
           n = zero_Notification \<or> Event n \<noteq> []"
  using assms unfolding processUsers_def
proof (induction allUsers arbitrary: st)
  case Nil
  then show ?case by simp
next
  case (Cons c cs)
  show ?case
    using Cons.IH[OF processUser_entries[OF Cons.prems]] by simp
qed

lemma printNotifications_drops_empty:
  assumes "\<forall>n\<in>set ns. n = zero_Notification \<or> Event n \<noteq> []"
  shows "printNotifications ns = filter (\<lambda>n. n \<noteq> zero_Notification) ns"
proof -
  have "Event n \<noteq> [] \<longleftrightarrow> n \<noteq> zero_Notification" if "n \<in> set ns" for n
    using assms that by (auto simp: zero_Notification_def)
  then show ?thesis
    unfolding printNotifications_def by (intro filter_cong) auto
qed

lemma main_from_candidates_reporter:
  "printed (main_from_candidates v db envSOURCE clock allUsers)
     = printNotifications (reporter_input (main_from_candidates v db envSOURCE clock allUsers)) \<and>
   (\<forall>n\<in>set (reporter_input (main_from_candidates v db envSOURCE clock allUsers)).
      n = zero_Notification \<or> Event n \<noteq> [])"
proof -
  have init: "\<forall>n\<in>set (notifications initial_state). n = zero_Notification \<or> Event n \<noteq> []"
    by (simp add: initial_state_def)
  show ?thesis
    using processUsers_entries[OF init]
    by (auto simp: main_from_candidates_def Let_def fatal_def printNotifications_def
             split: sum.splits)
qed

lemma main_reporter_filters:
  "\<exists>r. main v db envSOURCE clock = Some r \<and>
        printed r = printNotifications (reporter_input r) \<and>
        printed r = filter (\<lambda>n. n \<noteq> zero_Notification) (reporter_input r) \<and>
        (\<forall>n\<in>set (reporter_input r). n = zero_Notification \<or> Event n \<noteq> [])"
proof -
  obtain res where res: "fetchUsers v db batchSize = Some res"
    using fetchUsers_terminates by blast
  show ?thesis
  proof (cases res)
    case (Inl e)
    with res have "main v db envSOURCE clock = Some fatal" by (simp add: main_def)
    then show ?thesis by (simp add: fatal_def printNotifications_def)
  next
    case (Inr allUsers)
    with res have m: "main v db envSOURCE clock
                        = Some (main_from_candidates v db envSOURCE clock allUsers)"
      by (simp add: main_def)
    show ?thesis
      using main_from_candidates_reporter[of v db envSOURCE clock allUsers]
            printNotifications_drops_empty
              [of "reporter_input (main_from_candidates v db envSOURCE clock allUsers)"]
      by (simp add: m)
  qed
qed

text \<open>
  C5, as the code has it. The list \<^verbatim>\<open>main\<close> passes to the reporter is the list the
  per-candidate loop builds, unfiltered. A candidate reaches the assembler when its
  profile is resolved and the ledger and policy lookups succeed with a policy found;
  the loop appends exactly one entry for such a candidate, the result of
  \<^verbatim>\<open>buildNotification\<close>, which is the empty notification when the candidate is past due
  and a record with a non-empty \<^verbatim>\<open>Event\<close> otherwise, and it appends nothing for any
  other candidate. So the list has as many entries as candidates reached the assembler.
  The reporter does the filtering: it skips the entries with an empty \<^verbatim>\<open>Event\<close>, which
  are exactly the empty notifications, and prints every other entry. Every run ends.
\<close>

theorem reporter_receives_unfiltered_list:
  fixes v :: variant and db :: database and userDetailsMap :: "string \<rightharpoonup> UserDetails"
  defines "reaches \<equiv> \<lambda>c.
     (case userDetailsMap (MobileNumber (UserFlow c)) of
        None \<Rightarrow> False
      | Some userDetail \<Rightarrow>
          ID userDetail \<noteq> 0 \<and>
          (case fetchNotificationStatus db (ID userDetail) (EventType c) of
             Inl err \<Rightarrow> False
           | Inr status \<Rightarrow>
               (case fetchNotificationConfig v db (EventType c) (resolveAttempt status) of
                  Inl err \<Rightarrow> False
                | Inr notificationConfig \<Rightarrow> CEventName notificationConfig \<noteq> [])))"
  shows
   "(\<exists>r. main v db envSOURCE clock = Some r \<and>
        printed r = printNotifications (reporter_input r) \<and>
        printed r = filter (\<lambda>n. n \<noteq> zero_Notification) (reporter_input r) \<and>
        (\<forall>n\<in>set (reporter_input r). n = zero_Notification \<or> Event n \<noteq> [])) \<and>
    (fetchUsers v db batchSize = Some (Inr allUsers) \<and>
     \<not> (v = CreditCard \<and> allUsers = []) \<and>
     fetchUserDetails db (collectMobileNumbers allUsers) = Inr userDetailsMap \<and>
     fetchCustomHeader db (collectUserIDs userDetailsMap (collectMobileNumbers allUsers))
       = Inr customHeadersMap \<longrightarrow>
       main v db envSOURCE clock =
         Some \<lparr>exit_code = 0,
               reporter_input =
                 notifications (processUsers v db envSOURCE clock userDetailsMap
                                  customHeadersMap initial_state allUsers),
               printed =
                 printNotifications
                   (notifications (processUsers v db envSOURCE clock userDetailsMap
                                     customHeadersMap initial_state allUsers)),
               error_report =
                 reportErrors
                   (errs (processUsers v db envSOURCE clock userDetailsMap
                            customHeadersMap initial_state allUsers))\<rparr> \<and>
       length (notifications (processUsers v db envSOURCE clock userDetailsMap
                                customHeadersMap initial_state allUsers))
         = length (filter reaches allUsers)) \<and>
    length (notifications (processUsers v db envSOURCE clock userDetailsMap customHeadersMap
                             st cs))
      = length (notifications st) + length (filter reaches cs) \<and>
    (\<not> reaches c \<longrightarrow>
       notifications (processUser v db envSOURCE clock userDetailsMap customHeadersMap st c)
         = notifications st) \<and>
    (userDetailsMap (MobileNumber (UserFlow c)) = Some userDetail \<and> ID userDetail \<noteq> 0 \<and>
     fetchNotificationStatus db (ID userDetail) (EventType c) = Inr status \<and>
     fetchNotificationConfig v db (EventType c) (resolveAttempt status) = Inr notificationConfig \<and>
     CEventName notificationConfig \<noteq> [] \<longrightarrow>
       reaches c \<and>
       notifications (processUser v db envSOURCE clock userDetailsMap customHeadersMap st c)
         = notifications st @
             [buildNotification v envSOURCE (clock (clock_reads st)) (UserFlow c) userDetail
                (case customHeadersMap (ID userDetail) of
                   None \<Rightarrow> placeholderHeader v | Some h \<Rightarrow> h)
                notificationConfig (resolveAttempt status) (EventType c)] \<and>
       (newDelay (UserFlow c) notificationConfig (clock (clock_reads st)) < 0 \<longrightarrow>
          buildNotification v envSOURCE (clock (clock_reads st)) (UserFlow c) userDetail
            (case customHeadersMap (ID userDetail) of
               None \<Rightarrow> placeholderHeader v | Some h \<Rightarrow> h)
            notificationConfig (resolveAttempt status) (EventType c) = zero_Notification) \<and>
       (0 \<le> newDelay (UserFlow c) notificationConfig (clock (clock_reads st)) \<longrightarrow>
          buildNotification v envSOURCE (clock (clock_reads st)) (UserFlow c) userDetail
            (case customHeadersMap (ID userDetail) of
               None \<Rightarrow> placeholderHeader v | Some h \<Rightarrow> h)
            notificationConfig (resolveAttempt status) (EventType c) \<noteq> zero_Notification \<and>
          Event (buildNotification v envSOURCE (clock (clock_reads st)) (UserFlow c) userDetail
            (case customHeadersMap (ID userDetail) of
               None \<Rightarrow> placeholderHeader v | Some h \<Rightarrow> h)
            notificationConfig (resolveAttempt status) (EventType c)) \<noteq> []))"
proof -
  have step: "length (notifications
                 (processUser v db envSOURCE clock userDetailsMap customHeadersMap s x))
              = length (notifications s) + (if reaches x then 1 else 0)" for s x
    unfolding reaches_def
    by (simp add: processUser_def Let_def split: option.splits sum.splits)
  have count: "length (notifications
                 (foldl (processUser v db envSOURCE clock userDetailsMap customHeadersMap) s xs))
               = length (notifications s) + length (filter reaches xs)" for s xs
    by (induction xs arbitrary: s) (simp_all add: step)
  have skip: "notifications (processUser v db envSOURCE clock userDetailsMap customHeadersMap st c)
                = notifications st" if "\<not> reaches c"
    using that unfolding reaches_def
    by (auto simp: processUser_def Let_def split: option.splits sum.splits)
  have run: "main v db envSOURCE clock =
         Some \<lparr>exit_code = 0,
               reporter_input =
                 notifications (processUsers v db envSOURCE clock userDetailsMap
                                  customHeadersMap initial_state allUsers),
               printed =
                 printNotifications
                   (notifications (processUsers v db envSOURCE clock userDetailsMap
                                     customHeadersMap initial_state allUsers)),
               error_report =
                 reportErrors
                   (errs (processUsers v db envSOURCE clock userDetailsMap
                            customHeadersMap initial_state allUsers))\<rparr>"
    if "fetchUsers v db batchSize = Some (Inr allUsers) \<and>
        \<not> (v = CreditCard \<and> allUsers = []) \<and>
        fetchUserDetails db (collectMobileNumbers allUsers) = Inr userDetailsMap \<and>
        fetchCustomHeader db (collectUserIDs userDetailsMap (collectMobileNumbers allUsers))
          = Inr customHeadersMap"
    using that by (auto simp: main_def main_from_candidates_def Let_def)
  have built: "reaches c \<and>
       notifications (processUser v db envSOURCE clock userDetailsMap customHeadersMap st c)
         = notifications st @
             [buildNotification v envSOURCE (clock (clock_reads st)) (UserFlow c) userDetail
                (case customHeadersMap (ID userDetail) of
                   None \<Rightarrow> placeholderHeader v | Some h \<Rightarrow> h)
                notificationConfig (resolveAttempt status) (EventType c)]"
    if "userDetailsMap (MobileNumber (UserFlow c)) = Some userDetail \<and> ID userDetail \<noteq> 0 \<and>
        fetchNotificationStatus db (ID userDetail) (EventType c) = Inr status \<and>
        fetchNotificationConfig v db (EventType c) (resolveAttempt status) = Inr notificationConfig \<and>
        CEventName notificationConfig \<noteq> []"
    using that unfolding reaches_def by (simp add: processUser_def Let_def)
  have due: "buildNotification v envSOURCE t userFlow userDetail customHeader notificationConfig
               attempt eventName \<noteq> zero_Notification \<and>
             Event (buildNotification v envSOURCE t userFlow userDetail customHeader
               notificationConfig attempt eventName) \<noteq> []"
    if "0 \<le> newDelay userFlow notificationConfig t" "CEventName notificationConfig \<noteq> []"
    for t userFlow customHeader attempt eventName
  proof -
    from that(1) have nn: "\<not> newDelay userFlow notificationConfig t < 0" by simp
    have "buildNotification v envSOURCE t userFlow userDetail customHeader notificationConfig
               attempt eventName \<noteq> zero_Notification"
      using nn by (simp only: buildNotification_zero_iff not_False_eq_True)
    moreover have "Event (buildNotification v envSOURCE t userFlow userDetail customHeader
               notificationConfig attempt eventName) \<noteq> []"
      using that(2) by (simp add: buildNotification_due[OF nn])
    ultimately show ?thesis by blast
  qed
  show ?thesis
  proof (intro conjI impI)
    show "\<exists>r. main v db envSOURCE clock = Some r \<and>
        printed r = printNotifications (reporter_input r) \<and>
        printed r = filter (\<lambda>n. n \<noteq> zero_Notification) (reporter_input r) \<and>
        (\<forall>n\<in>set (reporter_input r). n = zero_Notification \<or> Event n \<noteq> [])"
      by (rule main_reporter_filters)
  next
    assume h: "fetchUsers v db batchSize = Some (Inr allUsers) \<and>
     \<not> (v = CreditCard \<and> allUsers = []) \<and>
     fetchUserDetails db (collectMobileNumbers allUsers) = Inr userDetailsMap \<and>
     fetchCustomHeader db (collectUserIDs userDetailsMap (collectMobileNumbers allUsers))
       = Inr customHeadersMap"
    show "main v db envSOURCE clock =
         Some \<lparr>exit_code = 0,
               reporter_input =
                 notifications (processUsers v db envSOURCE clock userDetailsMap
                                  customHeadersMap initial_state allUsers),
               printed =
                 printNotifications
                   (notifications (processUsers v db envSOURCE clock userDetailsMap
                                     customHeadersMap initial_state allUsers)),
               error_report =
                 reportErrors
                   (errs (processUsers v db envSOURCE clock userDetailsMap
                            customHeadersMap initial_state allUsers))\<rparr>"
      by (rule run[OF h])
    show "length (notifications (processUsers v db envSOURCE clock userDetailsMap
                                customHeadersMap initial_state allUsers))
         = length (filter reaches allUsers)"
      unfolding processUsers_def count by (simp add: initial_state_def)
  next
    show "length (notifications (processUsers v db envSOURCE clock userDetailsMap
                             customHeadersMap st cs))
      = length (notifications st) + length (filter reaches cs)"
      unfolding processUsers_def by (rule count)
  next
    assume "\<not> reaches c"
    then show "notifications
                 (processUser v db envSOURCE clock userDetailsMap customHeadersMap st c)
               = notifications st"
      by (rule skip)
  next
    assume h: "userDetailsMap (MobileNumber (UserFlow c)) = Some userDetail \<and>
        ID userDetail \<noteq> 0 \<and>
        fetchNotificationStatus db (ID userDetail) (EventType c) = Inr status \<and>
        fetchNotificationConfig v db (EventType c) (resolveAttempt status)
          = Inr notificationConfig \<and>
        CEventName notificationConfig \<noteq> []"
    from built[OF h] show "reaches c" by blast
    from built[OF h]
    show "notifications (processUser v db envSOURCE clock userDetailsMap customHeadersMap st c)
         = notifications st @
             [buildNotification v envSOURCE (clock (clock_reads st)) (UserFlow c) userDetail
                (case customHeadersMap (ID userDetail) of
                   None \<Rightarrow> placeholderHeader v | Some h \<Rightarrow> h)
                notificationConfig (resolveAttempt status) (EventType c)]"
      by blast
    show "buildNotification v envSOURCE (clock (clock_reads st)) (UserFlow c) userDetail
            (case customHeadersMap (ID userDetail) of
               None \<Rightarrow> placeholderHeader v | Some h \<Rightarrow> h)
            notificationConfig (resolveAttempt status) (EventType c) = zero_Notification"
      if "newDelay (UserFlow c) notificationConfig (clock (clock_reads st)) < 0"
      using that by (rule buildNotification_past_due)
    have ne: "CEventName notificationConfig \<noteq> []" using h by blast
    show "buildNotification v envSOURCE (clock (clock_reads st)) (UserFlow c) userDetail
            (case customHeadersMap (ID userDetail) of
               None \<Rightarrow> placeholderHeader v | Some h \<Rightarrow> h)
            notificationConfig (resolveAttempt status) (EventType c) \<noteq> zero_Notification"
      if "0 \<le> newDelay (UserFlow c) notificationConfig (clock (clock_reads st))"
      using due[OF that ne] by blast
    show "Event (buildNotification v envSOURCE (clock (clock_reads st)) (UserFlow c) userDetail
            (case customHeadersMap (ID userDetail) of
               None \<Rightarrow> placeholderHeader v | Some h \<Rightarrow> h)
            notificationConfig (resolveAttempt status) (EventType c)) \<noteq> []"
      if "0 \<le> newDelay (UserFlow c) notificationConfig (clock (clock_reads st))"
      using due[OF that ne] by blast
  qed
qed

theorem reporter_receives_unfiltered_list_witness:
  "notifications (processUser CreditCard declined_db [] (\<lambda>n. 8200000000000) declined_profiles
      Map.empty initial_state declined_candidate) = [zero_Notification] \<and>
   main CreditCard declined_db [] (\<lambda>n. 2800000000000) =
     Some \<lparr>exit_code = 0,
           reporter_input =
             notifications (processUsers CreditCard declined_db [] (\<lambda>n. 2800000000000)
                              declined_profiles Map.empty initial_state [declined_candidate]),
           printed =
             printNotifications
               (notifications (processUsers CreditCard declined_db [] (\<lambda>n. 2800000000000)
                                 declined_profiles Map.empty initial_state [declined_candidate])),
           error_report =
             reportErrors
               (errs (processUsers CreditCard declined_db [] (\<lambda>n. 2800000000000)
                        declined_profiles Map.empty initial_state [declined_candidate]))\<rparr> \<and>
   length (notifications (processUsers CreditCard declined_db [] (\<lambda>n. 2800000000000)
                            declined_profiles Map.empty initial_state [declined_candidate])) = 1"
proof -
  have pre: "declined_profiles (MobileNumber (UserFlow declined_candidate)) = Some example_user \<and>
     ID example_user \<noteq> 0 \<and>
     fetchNotificationStatus declined_db (ID example_user) (EventType declined_candidate)
       = Inr \<lparr>SEventName = ''CREDIT_CARD_REJECTED'', SAttempt = 2\<rparr> \<and>
     fetchNotificationConfig CreditCard declined_db (EventType declined_candidate)
       (resolveAttempt \<lparr>SEventName = ''CREDIT_CARD_REJECTED'', SAttempt = 2\<rparr>)
       = Inr declined_policy \<and>
     CEventName declined_policy \<noteq> []"
    using declined_chain by blast
  note late = reporter_receives_unfiltered_list
    [where v = CreditCard and db = declined_db and userDetailsMap = declined_profiles
       and envSOURCE = "[]" and clock = "\<lambda>n. 8200000000000" and customHeadersMap = Map.empty
       and st = initial_state and c = declined_candidate and userDetail = example_user
       and status = "\<lparr>SEventName = ''CREDIT_CARD_REJECTED'', SAttempt = 2\<rparr>"
       and notificationConfig = declined_policy,
     THEN conjunct2, THEN conjunct2, THEN conjunct2, THEN conjunct2, rule_format, OF pre]
  have flow: "UserFlow declined_candidate = declined_flow"
    by (simp add: declined_candidate_def declined_flow_def)
  have a: "notifications (processUser CreditCard declined_db [] (\<lambda>n. 8200000000000)
      declined_profiles Map.empty initial_state declined_candidate) = [zero_Notification]"
    using late declined_delay_past by (simp add: flow initial_state_def)
  have h: "fetchUsers CreditCard declined_db batchSize = Some (Inr [declined_candidate]) \<and>
     \<not> (CreditCard = CreditCard \<and> [declined_candidate] = []) \<and>
     fetchUserDetails declined_db (collectMobileNumbers [declined_candidate])
       = Inr declined_profiles \<and>
     fetchCustomHeader declined_db
       (collectUserIDs declined_profiles (collectMobileNumbers [declined_candidate]))
       = Inr Map.empty"
    using fetchUsers_declined_db declined_maps by simp
  note run = reporter_receives_unfiltered_list
    [where v = CreditCard and db = declined_db and userDetailsMap = declined_profiles
       and envSOURCE = "[]" and clock = "\<lambda>n. 2800000000000" and customHeadersMap = Map.empty
       and allUsers = "[declined_candidate]",
     THEN conjunct2, THEN conjunct1, rule_format, OF h]
  have reach: "(case declined_profiles (MobileNumber (UserFlow declined_candidate)) of
        None \<Rightarrow> False
      | Some userDetail \<Rightarrow>
          ID userDetail \<noteq> 0 \<and>
          (case fetchNotificationStatus declined_db (ID userDetail) (EventType declined_candidate) of
             Inl err \<Rightarrow> False
           | Inr status \<Rightarrow>
               (case fetchNotificationConfig CreditCard declined_db (EventType declined_candidate)
                       (resolveAttempt status) of
                  Inl err \<Rightarrow> False
                | Inr notificationConfig \<Rightarrow> CEventName notificationConfig \<noteq> [])))"
    using pre by simp
  from run reach a show ?thesis by simp
qed

theorem suppressed_entry_reaches_reporter:
  "main CreditCard declined_db [] (\<lambda>n. 8200000000000) =
     Some \<lparr>exit_code = 0, reporter_input = [zero_Notification], printed = [],
           error_report = []\<rparr>"
proof -
  have "buildNotification CreditCard [] 8200000000000 declined_flow example_user
          (placeholderHeader CreditCard) declined_policy 3 ''CREDIT_CARD_REJECTED''
        = zero_Notification"
    using declined_delay_past by (simp add: buildNotification_zero_iff)
  then show ?thesis
    by (simp add: declined_run printNotifications_def zero_Notification_def)
qed


section \<open>Lookup failures\<close>

lemma fetchUsers_rejected_db:
  "fetchUsers Aadhaar rejected_db batchSize = Some (Inr [rejected_candidate])"
  unfolding fetchUsers_def
  by (subst fetchLoop.simps)
     (simp add: fetch_page_def rejected_db_def empty_db_def latest_status_query_def
        event_type_def rejectStatuses_def failureStatuses_def batchSize_def
        status_candidates_def rejected_candidate_def)

lemma fetchUsers_declined_failing_db:
  "fetchUsers CreditCard declined_failing_db batchSize = Some (Inr [declined_candidate])"
  unfolding fetchUsers_def
  by (subst fetchLoop.simps)
     (simp add: fetch_page_def declined_failing_db_def declined_db_def empty_db_def
        declined_query_def left_join_users_def example_user_def batchSize_def
        declined_candidates_def declined_candidate_def)

lemma rejected_maps:
  "collectMobileNumbers [rejected_candidate] = [''+919990001'']"
  "fetchUserDetails rejected_db [''+919990001''] = Inr declined_profiles"
  "fetchCustomHeader rejected_db [7] = Inr Map.empty"
  by (simp_all add: collectMobileNumbers_def rejected_candidate_def fetchUserDetails_def
        rejected_db_def empty_db_def example_user_def declined_profiles_def
        fetchCustomHeader_def custom_headers_query_def buildCustomHeadersMap_def)

lemma declined_failing_maps:
  "fetchUserDetails declined_failing_db [''+919990001''] = Inr declined_profiles"
  "fetchCustomHeader declined_failing_db [7] = Inr Map.empty"
  by (simp_all add: fetchUserDetails_def declined_failing_db_def declined_db_def empty_db_def
        example_user_def declined_profiles_def fetchCustomHeader_def custom_headers_query_def
        buildCustomHeadersMap_def)

lemma rejected_step:
  "processUser Aadhaar rejected_db [] clock declined_profiles Map.empty initial_state
     rejected_candidate = \<lparr>notifications = [], errs = [], clock_reads = 0\<rparr>"
  by (simp add: processUser_def Let_def rejected_candidate_def declined_profiles_def
        example_user_def fetchNotificationStatus_def notification_status_query_def
        rejected_db_def empty_db_def zero_NotificationStatusDetails_def resolveAttempt_def
        zero_NotificationConfigDetails_def initial_state_def)

lemma declined_failing_step:
  "processUser CreditCard declined_failing_db [] clock declined_profiles Map.empty initial_state
     declined_candidate
   = \<lparr>notifications = [], errs = [DriverError ''connection reset''], clock_reads = 0\<rparr>"
  by (simp add: processUser_def Let_def declined_candidate_def declined_profiles_def
        example_user_def fetchNotificationStatus_def notification_status_query_def
        declined_failing_db_def declined_db_def empty_db_def resolveAttempt_def
        initial_state_def)

text \<open>
  C6 at a failing policy lookup. The same failure of the \<^verbatim>\<open>notification_config\<close> query is
  collected and reported as error 1 by the credit-card file, and is neither collected nor
  reported by the Aadhaar file, whose \<^verbatim>\<open>fetchNotificationConfig\<close> returns a nil error:
  the candidate is skipped as if no policy were configured.
\<close>

theorem policy_lookup_failure_unreported_in_aadhaar:
  "main Aadhaar rejected_db [] clock =
     Some \<lparr>exit_code = 0, reporter_input = [], printed = [], error_report = []\<rparr> \<and>
   fetchNotificationConfig Aadhaar rejected_db ''AADHAAR_REJECT'' 1
     = Inr zero_NotificationConfigDetails \<and>
   config_err rejected_db ''AADHAAR_REJECT'' 1 = Some ''connection reset'' \<and>
   main CreditCard declined_failing_db [] clock =
     Some \<lparr>exit_code = 0, reporter_input = [], printed = [],
           error_report = [(1, DriverError ''connection reset'')]\<rparr>"
proof -
  have a: "main Aadhaar rejected_db [] clock =
     Some \<lparr>exit_code = 0, reporter_input = [], printed = [], error_report = []\<rparr>"
    by (simp add: main_from_fetch[OF fetchUsers_rejected_db] main_from_candidates_def
          rejected_maps declined_maps processUsers_def rejected_step reportErrors_def
          printNotifications_def)
  have b: "fetchNotificationConfig Aadhaar rejected_db ''AADHAAR_REJECT'' 1
     = Inr zero_NotificationConfigDetails"
    by (simp add: rejected_db_def empty_db_def)
  have c: "config_err rejected_db ''AADHAAR_REJECT'' 1 = Some ''connection reset''"
    by (simp add: rejected_db_def empty_db_def)
  have d: "main CreditCard declined_failing_db [] clock =
     Some \<lparr>exit_code = 0, reporter_input = [], printed = [],
           error_report = [(1, DriverError ''connection reset'')]\<rparr>"
    by (simp add: main_from_fetch[OF fetchUsers_declined_failing_db] main_from_candidates_def
          declined_failing_maps declined_maps processUsers_def declined_failing_step
          reportErrors_def printNotifications_def)
  from a b c d show ?thesis by blast
qed

section \<open>Empty candidate set\<close>

lemma run_without_candidates:
  assumes "users_err db = None" and "custom_headers_err db = None"
  shows "main_from_candidates v db envSOURCE clock [] = success_no_output"
  using assms
  by (simp add: main_from_candidates_def collectMobileNumbers_def fetchUserDetails_def
        collectUserIDs_def fetchCustomHeader_def processUsers_def
        initial_state_def printNotifications_def reportErrors_def success_no_output_def)

lemma run_without_candidates_fatal:
  assumes "users_err db \<noteq> None \<or> custom_headers_err db \<noteq> None"
  shows "main_from_candidates Aadhaar db envSOURCE clock [] = fatal"
  using assms
  by (auto simp: main_from_candidates_def collectMobileNumbers_def fetchUserDetails_def
        collectUserIDs_def fetchCustomHeader_def
        split: option.splits)

text \<open>
  C9, as the code has it. When the candidate source returns no candidate, the
  credit-card file returns at once: exit status 0, nothing printed, no lookup made. The
  Aadhaar file has no such return: it still queries \<^verbatim>\<open>users\<close> and \<^verbatim>\<open>custom_headers\<close>
  with empty key lists, ends with exit status 0 and nothing printed when both queries
  succeed, and exits with status 1 when one of them fails.
\<close>

theorem empty_candidate_set:
  assumes "fetchUsers v db batchSize = Some (Inr [])"
  shows "(v = CreditCard \<longrightarrow> main v db envSOURCE clock = Some success_no_output) \<and>
         (v = Aadhaar \<and> users_err db = None \<and> custom_headers_err db = None \<longrightarrow>
            main v db envSOURCE clock = Some success_no_output) \<and>
         (v = Aadhaar \<and> (users_err db \<noteq> None \<or> custom_headers_err db \<noteq> None) \<longrightarrow>
            main v db envSOURCE clock = Some fatal)"
proof (intro conjI impI)
  assume "v = CreditCard"
  then show "main v db envSOURCE clock = Some success_no_output"
    using main_from_fetch[OF assms, of envSOURCE clock]
    by (simp add: main_from_candidates_def success_no_output_def)
next
  assume "v = Aadhaar \<and> users_err db = None \<and> custom_headers_err db = None"
  then show "main v db envSOURCE clock = Some success_no_output"
    using main_from_fetch[OF assms, of envSOURCE clock]
    by (simp add: run_without_candidates)
next
  assume "v = Aadhaar \<and> (users_err db \<noteq> None \<or> custom_headers_err db \<noteq> None)"
  then show "main v db envSOURCE clock = Some fatal"
    using run_without_candidates_fatal[of db envSOURCE clock]
          main_from_fetch[OF assms, of envSOURCE clock]
    by auto
qed

lemma fetchUsers_empty_db: "fetchUsers v empty_db batchSize = Some (Inr [])"
  unfolding fetchUsers_def
  by (subst fetchLoop.simps, cases v)
     (simp_all add: fetch_page_def empty_db_def declined_query_def left_join_users_def
        latest_status_query_def batchSize_def declined_candidates_def status_candidates_def)

lemma fetchUsers_users_down_db: "fetchUsers Aadhaar users_down_db batchSize = Some (Inr [])"
  unfolding fetchUsers_def
  by (subst fetchLoop.simps)
     (simp add: fetch_page_def users_down_db_def empty_db_def latest_status_query_def
        batchSize_def status_candidates_def)

theorem empty_candidate_set_witness:
  "main CreditCard empty_db [] (\<lambda>n. 0) = Some success_no_output \<and>
   main Aadhaar empty_db [] (\<lambda>n. 0) = Some success_no_output \<and>
   main Aadhaar users_down_db [] (\<lambda>n. 0) = Some fatal"
  using empty_candidate_set[OF fetchUsers_empty_db, of CreditCard "[]" "\<lambda>n. 0"]
        empty_candidate_set[OF fetchUsers_empty_db, of Aadhaar "[]" "\<lambda>n. 0"]
        empty_candidate_set[OF fetchUsers_users_down_db, of "[]" "\<lambda>n. 0"]
  by (simp add: empty_db_def users_down_db_def)

theorem empty_candidate_set_can_exit_nonzero:
  "fetchUsers Aadhaar users_down_db batchSize = Some (Inr []) \<and>
   main Aadhaar users_down_db [] (\<lambda>n. 0)
     = Some \<lparr>exit_code = 1, reporter_input = [], printed = [], error_report = []\<rparr>"
proof -
  have "main_from_candidates Aadhaar users_down_db [] (\<lambda>n. 0) []
          = \<lparr>exit_code = 1, reporter_input = [], printed = [], error_report = []\<rparr>"
    by (simp add: main_from_candidates_def collectMobileNumbers_def fetchUserDetails_def
          users_down_db_def empty_db_def fatal_def)
  then show ?thesis
    by (simp add: fetchUsers_users_down_db main_from_fetch[OF fetchUsers_users_down_db])
qed


section \<open>Candidate Source\<close>

subsection \<open>Aadhaar: the row ranked first per mobile number\<close>








subsection \<open>Credit card: one row per mobile number and creation time\<close>






subsection \<open>What each source emits for a mobile number\<close>









section \<open>Presence of a ledger record\<close>

lemma ledger_answer_for_candidate:
  assumes "fetchUsers v db batchSize = Some (Inr allUsers)" and "c \<in> set allUsers"
    and "fetchNotificationStatus db userID (EventType c) = Inr status"
  shows "(SEventName status = [] \<longleftrightarrow>
            filter (\<lambda>r. ns_user_id r = userID \<and> ns_event_name r = EventType c)
              (notification_status db) = []) \<and>
         (SEventName status = [] \<longrightarrow> SAttempt status = 0)"
proof -
  let ?rows = "filter (\<lambda>r. ns_user_id r = userID \<and> ns_event_name r = EventType c)
                 (notification_status db)"
  have ev: "EventType c \<noteq> []"
    using candidate_EventType_nonempty[OF assms(1,2)] .
  have ok: "status_err db userID (EventType c) = None"
    using assms(3) by (auto simp: fetchNotificationStatus_def split: option.splits)
  show ?thesis
  proof (cases "?rows = []")
    case True
    then have "status = zero_NotificationStatusDetails"
      using assms(3) ok
      by (simp add: fetchNotificationStatus_def notification_status_query_def)
    with True show ?thesis by (simp add: zero_NotificationStatusDetails_def)
  next
    case False
    from take1_sort_key[OF this, of "\<lambda>r. - ns_updated_at r"]
    obtain r where q: "notification_status_query db userID (EventType c) = [r]"
      and mem: "r \<in> set ?rows"
      unfolding notification_status_query_def by auto
    have "status = \<lparr>SEventName = ns_event_name r, SAttempt = ns_attempt r\<rparr>"
      using assms(3) ok q by (simp add: fetchNotificationStatus_def)
    moreover have "ns_event_name r = EventType c" using mem by simp
    ultimately show ?thesis using False ev by simp
  qed
qed

lemma returned_row_event_name:
  assumes "notification_status_query db userID eventName = [r]"
  shows "ns_event_name r = eventName"
proof -
  have "r \<in> set (take 1 (sort_key (\<lambda>r. - ns_updated_at r)
                 (filter (\<lambda>r. ns_user_id r = userID \<and> ns_event_name r = eventName)
                    (notification_status db))))"
    using assms unfolding notification_status_query_def by simp
  then have "r \<in> set (sort_key (\<lambda>r. - ns_updated_at r)
                 (filter (\<lambda>r. ns_user_id r = userID \<and> ns_event_name r = eventName)
                    (notification_status db)))"
    by (rule in_set_takeD)
  then show ?thesis by simp
qed

text \<open>
  C10. \<^verbatim>\<open>main\<close> decides whether the ledger holds a record by the returned
  \<^verbatim>\<open>EventName\<close> alone. For a candidate with a resolved profile whose ledger lookup
  returns a struct, the loop looks the policy up and builds the notification with
  attempt 1 when the struct's \<^verbatim>\<open>EventName\<close> is empty, whatever its \<^verbatim>\<open>Attempt\<close> holds,
  and with \<^verbatim>\<open>Attempt + 1\<close> when it is not. For a candidate a source emits, the returned
  \<^verbatim>\<open>EventName\<close> is empty exactly when the ledger has no row for the identity and event
  type. A ledger row with an empty event name is returned only to a lookup for the
  empty event name; it is then treated as no record: the attempt is 1 and the row's
  attempt \<open>N\<close> is ignored.
\<close>

theorem record_presence_by_event_name:
  "(userDetailsMap (MobileNumber (UserFlow c)) = Some userDetail \<and> ID userDetail \<noteq> 0 \<and>
    fetchNotificationStatus db (ID userDetail) (EventType c) = Inr status \<longrightarrow>
      processUser v db envSOURCE clock userDetailsMap customHeadersMap st c =
        (case fetchNotificationConfig v db (EventType c)
                (if SEventName status = [] then 1 else SAttempt status + 1) of
           Inl err \<Rightarrow> st\<lparr>errs := errs st @ [err]\<rparr>
         | Inr notificationConfig \<Rightarrow>
             if CEventName notificationConfig = [] then st
             else st\<lparr>notifications := notifications st @
                        [buildNotification v envSOURCE (clock (clock_reads st)) (UserFlow c)
                           userDetail
                           (case customHeadersMap (ID userDetail) of
                              None \<Rightarrow> placeholderHeader v | Some h \<Rightarrow> h)
                           notificationConfig
                           (if SEventName status = [] then 1 else SAttempt status + 1)
                           (EventType c)],
                      clock_reads := Suc (clock_reads st)\<rparr>)) \<and>
   (fetchUsers v db batchSize = Some (Inr allUsers) \<and> c' \<in> set allUsers \<and>
    fetchNotificationStatus db userID (EventType c') = Inr status' \<longrightarrow>
      (SEventName status' = [] \<longleftrightarrow>
         filter (\<lambda>r. ns_user_id r = userID \<and> ns_event_name r = EventType c')
           (notification_status db) = []) \<and>
      (SEventName status' = [] \<longrightarrow> resolveAttempt status' = 1) \<and>
      (SEventName status' \<noteq> [] \<longrightarrow> resolveAttempt status' = SAttempt status' + 1)) \<and>
   (status_err db userID eventName = None \<and>
    notification_status_query db userID eventName = [r] \<and> ns_event_name r = [] \<longrightarrow>
      eventName = [] \<and>
      fetchNotificationStatus db userID eventName
        = Inr \<lparr>SEventName = [], SAttempt = ns_attempt r\<rparr> \<and>
      resolveAttempt \<lparr>SEventName = [], SAttempt = ns_attempt r\<rparr> = 1) \<and>
   resolveAttempt \<lparr>SEventName = [], SAttempt = N\<rparr> = 1 \<and>
   (name \<noteq> [] \<longrightarrow> resolveAttempt \<lparr>SEventName = name, SAttempt = N\<rparr> = N + 1)"
proof (intro conjI impI)
  assume "userDetailsMap (MobileNumber (UserFlow c)) = Some userDetail \<and> ID userDetail \<noteq> 0 \<and>
    fetchNotificationStatus db (ID userDetail) (EventType c) = Inr status"
  then show "processUser v db envSOURCE clock userDetailsMap customHeadersMap st c =
        (case fetchNotificationConfig v db (EventType c)
                (if SEventName status = [] then 1 else SAttempt status + 1) of
           Inl err \<Rightarrow> st\<lparr>errs := errs st @ [err]\<rparr>
         | Inr notificationConfig \<Rightarrow>
             if CEventName notificationConfig = [] then st
             else st\<lparr>notifications := notifications st @
                        [buildNotification v envSOURCE (clock (clock_reads st)) (UserFlow c)
                           userDetail
                           (case customHeadersMap (ID userDetail) of
                              None \<Rightarrow> placeholderHeader v | Some h \<Rightarrow> h)
                           notificationConfig
                           (if SEventName status = [] then 1 else SAttempt status + 1)
                           (EventType c)],
                      clock_reads := Suc (clock_reads st)\<rparr>)"
    by (simp add: processUser_def Let_def resolveAttempt_def)
next
  assume a: "fetchUsers v db batchSize = Some (Inr allUsers) \<and> c' \<in> set allUsers \<and>
    fetchNotificationStatus db userID (EventType c') = Inr status'"
  then show "SEventName status' = [] \<longleftrightarrow>
         filter (\<lambda>r. ns_user_id r = userID \<and> ns_event_name r = EventType c')
           (notification_status db) = []"
    using ledger_answer_for_candidate[of v db allUsers c' userID status'] by blast
  show "resolveAttempt status' = 1" if "SEventName status' = []"
    using that by (simp add: resolveAttempt_def)
  show "resolveAttempt status' = SAttempt status' + 1" if "SEventName status' \<noteq> []"
    using that by (simp add: resolveAttempt_def)
next
  assume a: "status_err db userID eventName = None \<and>
    notification_status_query db userID eventName = [r] \<and> ns_event_name r = []"
  then show "eventName = []"
    using returned_row_event_name[of db userID eventName r] by simp
  from a show "fetchNotificationStatus db userID eventName
        = Inr \<lparr>SEventName = [], SAttempt = ns_attempt r\<rparr>"
    by (simp add: fetchNotificationStatus_def)
  show "resolveAttempt \<lparr>SEventName = [], SAttempt = ns_attempt r\<rparr> = 1"
    by (simp add: resolveAttempt_def)
next
  show "resolveAttempt \<lparr>SEventName = [], SAttempt = N\<rparr> = 1"
    by (simp add: resolveAttempt_def)
next
  assume "name \<noteq> []"
  then show "resolveAttempt \<lparr>SEventName = name, SAttempt = N\<rparr> = N + 1"
    by (simp add: resolveAttempt_def)
qed

lemma first_attempt_lookups:
  "fetchNotificationStatus first_attempt_db (ID example_user) (EventType declined_candidate)
     = Inr \<lparr>SEventName = [], SAttempt = 0\<rparr>"
  "fetchNotificationConfig CreditCard first_attempt_db ''CREDIT_CARD_REJECTED'' 1
     = Inr first_policy"
  "fetchNotificationConfig CreditCard declined_db ''CREDIT_CARD_REJECTED'' 3
     = Inr declined_policy"
  "fetchNotificationStatus declined_db (ID example_user) (EventType declined_candidate)
     = Inr \<lparr>SEventName = ''CREDIT_CARD_REJECTED'', SAttempt = 2\<rparr>"
proof -
  show "fetchNotificationStatus first_attempt_db (ID example_user) (EventType declined_candidate)
     = Inr \<lparr>SEventName = [], SAttempt = 0\<rparr>"
    by (simp add: fetchNotificationStatus_def notification_status_query_def
          first_attempt_db_def declined_db_def empty_db_def zero_NotificationStatusDetails_def)
  show "fetchNotificationConfig CreditCard first_attempt_db ''CREDIT_CARD_REJECTED'' 1
     = Inr first_policy"
    by (simp add: notification_config_query_def scan_notification_config_def
          first_attempt_db_def declined_db_def empty_db_def first_policy_def)
  show "fetchNotificationConfig CreditCard declined_db ''CREDIT_CARD_REJECTED'' 3
     = Inr declined_policy"
    by (rule declined_config)
  show "fetchNotificationStatus declined_db (ID example_user) (EventType declined_candidate)
     = Inr \<lparr>SEventName = ''CREDIT_CARD_REJECTED'', SAttempt = 2\<rparr>"
    using declined_chain by blast
qed

theorem record_presence_by_event_name_witness:
  "processUser CreditCard first_attempt_db [] (\<lambda>n. 2800000000000) declined_profiles Map.empty
     initial_state declined_candidate
     = \<lparr>notifications =
          [buildNotification CreditCard [] 2800000000000 declined_flow example_user
             (placeholderHeader CreditCard) first_policy 1 ''CREDIT_CARD_REJECTED''],
        errs = [], clock_reads = 1\<rparr> \<and>
   processUser CreditCard declined_db [] (\<lambda>n. 2800000000000) declined_profiles Map.empty
     initial_state declined_candidate
     = \<lparr>notifications =
          [buildNotification CreditCard [] 2800000000000 declined_flow example_user
             (placeholderHeader CreditCard) declined_policy 3 ''CREDIT_CARD_REJECTED''],
        errs = [], clock_reads = 1\<rparr> \<and>
   fetchNotificationStatus unnamed_ledger_db 7 []
     = Inr \<lparr>SEventName = [], SAttempt = 5\<rparr> \<and>
   resolveAttempt \<lparr>SEventName = [], SAttempt = 5\<rparr> = 1"
proof -
  have p: "declined_profiles (MobileNumber (UserFlow declined_candidate)) = Some example_user"
    "ID example_user \<noteq> 0"
    using declined_chain by simp_all
  have flow: "UserFlow declined_candidate = declined_flow"
    by (simp add: declined_candidate_def declined_flow_def)
  have ev: "EventType declined_candidate = ''CREDIT_CARD_REJECTED''"
    by (simp add: declined_candidate_def)
  have n1: "CEventName first_policy \<noteq> []" by (simp add: first_policy_def)
  have n3: "CEventName declined_policy \<noteq> []" by (simp add: declined_policy_def)
  have h1: "declined_profiles (MobileNumber (UserFlow declined_candidate)) = Some example_user \<and>
      ID example_user \<noteq> 0 \<and>
      fetchNotificationStatus first_attempt_db (ID example_user) (EventType declined_candidate)
        = Inr \<lparr>SEventName = [], SAttempt = 0\<rparr>"
    using p first_attempt_lookups(1) by blast
  have h3: "declined_profiles (MobileNumber (UserFlow declined_candidate)) = Some example_user \<and>
      ID example_user \<noteq> 0 \<and>
      fetchNotificationStatus declined_db (ID example_user) (EventType declined_candidate)
        = Inr \<lparr>SEventName = ''CREDIT_CARD_REJECTED'', SAttempt = 2\<rparr>"
    using p first_attempt_lookups(4) by blast
  note t1 = record_presence_by_event_name
    [where userDetailsMap = declined_profiles and c = declined_candidate
       and userDetail = example_user and db = first_attempt_db
       and status = "\<lparr>SEventName = [], SAttempt = 0\<rparr>" and v = CreditCard
       and envSOURCE = "[]" and clock = "\<lambda>n. 2800000000000" and customHeadersMap = Map.empty
       and st = initial_state,
     THEN conjunct1, rule_format, OF h1]
  note t3 = record_presence_by_event_name
    [where userDetailsMap = declined_profiles and c = declined_candidate
       and userDetail = example_user and db = declined_db
       and status = "\<lparr>SEventName = ''CREDIT_CARD_REJECTED'', SAttempt = 2\<rparr>" and v = CreditCard
       and envSOURCE = "[]" and clock = "\<lambda>n. 2800000000000" and customHeadersMap = Map.empty
       and st = initial_state,
     THEN conjunct1, rule_format, OF h3]
  have q: "status_err unnamed_ledger_db 7 [] = None \<and>
     notification_status_query unnamed_ledger_db 7 []
       = [\<lparr>ns_user_id = 7, ns_event_name = [], ns_attempt = 5, ns_updated_at = 10\<rparr>] \<and>
     ns_event_name \<lparr>ns_user_id = 7, ns_event_name = [], ns_attempt = 5, ns_updated_at = 10\<rparr> = []"
    by (simp add: unnamed_ledger_db_def empty_db_def notification_status_query_def)
  note t5 = record_presence_by_event_name
    [where db = unnamed_ledger_db and userID = 7 and eventName = "[]"
       and r = "\<lparr>ns_user_id = 7, ns_event_name = [], ns_attempt = 5, ns_updated_at = 10\<rparr>",
     THEN conjunct2, THEN conjunct2, THEN conjunct1, rule_format, OF q]
  have att1: "(if SEventName \<lparr>SEventName = [], SAttempt = 0\<rparr> = [] then 1
               else SAttempt \<lparr>SEventName = [], SAttempt = 0\<rparr> + 1) = (1 :: go_int)"
    by simp
  have att3: "(if SEventName \<lparr>SEventName = ''CREDIT_CARD_REJECTED'', SAttempt = 2\<rparr> = [] then 1
               else SAttempt \<lparr>SEventName = ''CREDIT_CARD_REJECTED'', SAttempt = 2\<rparr> + 1)
              = (3 :: go_int)"
    by simp
  have a: "processUser CreditCard first_attempt_db [] (\<lambda>n. 2800000000000) declined_profiles
     Map.empty initial_state declined_candidate
     = \<lparr>notifications =
          [buildNotification CreditCard [] 2800000000000 declined_flow example_user
             (placeholderHeader CreditCard) first_policy 1 ''CREDIT_CARD_REJECTED''],
        errs = [], clock_reads = 1\<rparr>"
    unfolding t1 ev flow att1 first_attempt_lookups(2)
    by (simp add: n1 initial_state_def)
  have b: "processUser CreditCard declined_db [] (\<lambda>n. 2800000000000) declined_profiles
     Map.empty initial_state declined_candidate
     = \<lparr>notifications =
          [buildNotification CreditCard [] 2800000000000 declined_flow example_user
             (placeholderHeader CreditCard) declined_policy 3 ''CREDIT_CARD_REJECTED''],
        errs = [], clock_reads = 1\<rparr>"
    unfolding t3 ev flow att3 first_attempt_lookups(3)
    by (simp add: n3 initial_state_def)
  have c: "fetchNotificationStatus unnamed_ledger_db 7 []
     = Inr \<lparr>SEventName = [], SAttempt = 5\<rparr>"
    using t5 by simp
  have d: "resolveAttempt \<lparr>SEventName = [], SAttempt = 5\<rparr> = 1"
    using t5 by simp
  show ?thesis
    by (rule conjI[OF a conjI[OF b conjI[OF c d]]])
qed

end
